theory Spec2Isabelle
  imports Main
begin

section \<open>Strings, integers and the library functions the handler calls\<close>

text \<open>
  Go strings are byte sequences; they are modelled as \<open>string\<close> (a list of
  \<open>char\<close>, one per byte). Go's \<open>int\<close> has \<open>intSize\<close> bits, 32 or 64 according to
  the platform; values are kept as \<open>int\<close> and the range check of the parser is written out.
\<close>

definition isDigit :: "char \<Rightarrow> bool" where
  "isDigit c = (48 \<le> (of_char c :: nat) \<and> (of_char c :: nat) \<le> 57)"

definition digitVal :: "char \<Rightarrow> nat" where
  "digitVal c = (of_char c :: nat) - 48"

definition digitChar :: "nat \<Rightarrow> char" where
  "digitChar n = char_of (48 + n)"

text \<open>
  \<open>strconv.Atoi\<close> (Go standard library): an optional sign, then one or more decimal
  digits; any other shape is a syntax error, and a value outside the range of \<open>int\<close> is
  a range error.
\<close>

datatype numError = ErrSyntax | ErrRange

fun parseDigits :: "string \<Rightarrow> nat \<Rightarrow> nat option" where
  "parseDigits [] acc = Some acc"
| "parseDigits (c # cs) acc =
     (if isDigit c then parseDigits cs (acc * 10 + digitVal c) else None)"

definition atoiUnsigned :: "nat \<Rightarrow> bool \<Rightarrow> string \<Rightarrow> numError + int" where
  "atoiUnsigned intSize neg ds =
     (if ds = [] then Inl ErrSyntax
      else case parseDigits ds 0 of
             None \<Rightarrow> Inl ErrSyntax
           | Some n \<Rightarrow>
               if neg then (if n \<le> 2 ^ (intSize - 1) then Inr (- int n) else Inl ErrRange)
               else (if n < 2 ^ (intSize - 1) then Inr (int n) else Inl ErrRange))"

definition atoi :: "nat \<Rightarrow> string \<Rightarrow> numError + int" where
  "atoi intSize s =
     (case s of
        [] \<Rightarrow> Inl ErrSyntax
      | c # cs \<Rightarrow>
          if c = CHR ''-'' then atoiUnsigned intSize True cs
          else if c = CHR ''+'' then atoiUnsigned intSize False cs
          else atoiUnsigned intSize False s)"

text \<open>\<open>strconv.Itoa\<close>: the decimal text of an \<open>int\<close>, with a minus sign when negative.\<close>

fun digits :: "nat \<Rightarrow> string" where
  "digits n = (if n < 10 then [digitChar n] else digits (n div 10) @ [digitChar (n mod 10)])"

declare digits.simps [simp del]

definition itoa :: "int \<Rightarrow> string" where
  "itoa i = (if i < 0 then CHR ''-'' # digits (nat (- i)) else digits (nat i))"

text \<open>
  \<open>net.SplitHostPort\<close> (Go standard library). The port starts after the last colon; a
  host in square brackets must end just before that colon; a host without brackets must
  hold no colon; no stray bracket may remain.
\<close>

datatype addrError =
  MissingPort | TooManyColons | MissingRBracket | UnexpectedLBracket | UnexpectedRBracket

fun indexByte :: "string \<Rightarrow> char \<Rightarrow> nat option" where
  "indexByte [] c = None"
| "indexByte (x # xs) c = (if x = c then Some 0 else map_option Suc (indexByte xs c))"

definition lastIndexByte :: "string \<Rightarrow> char \<Rightarrow> nat option" where
  "lastIndexByte s c =
     (case indexByte (rev s) c of None \<Rightarrow> None | Some k \<Rightarrow> Some (length s - 1 - k))"

definition splitFinish ::
  "string \<Rightarrow> nat \<Rightarrow> string \<Rightarrow> nat \<Rightarrow> nat \<Rightarrow> addrError + (string \<times> string)" where
  "splitFinish hostport i host j k =
     (if indexByte (drop j hostport) (CHR ''['') \<noteq> None then Inl UnexpectedLBracket
      else if indexByte (drop k hostport) (CHR '']'') \<noteq> None then Inl UnexpectedRBracket
      else Inr (host, drop (i + 1) hostport))"

definition SplitHostPort :: "string \<Rightarrow> addrError + (string \<times> string)" where
  "SplitHostPort hostport =
     (case lastIndexByte hostport (CHR '':'') of
        None \<Rightarrow> Inl MissingPort
      | Some i \<Rightarrow>
          if take 1 hostport = ''[''
          then (case indexByte hostport (CHR '']'') of
                  None \<Rightarrow> Inl MissingRBracket
                | Some e \<Rightarrow>
                    if e + 1 = length hostport then Inl MissingPort
                    else if e + 1 = i
                    then splitFinish hostport i (take (e - 1) (drop 1 hostport)) 1 (e + 1)
                    else if take 1 (drop (e + 1) hostport) = '':'' then Inl TooManyColons
                    else Inl MissingPort)
          else (let host = take i hostport
                in if indexByte host (CHR '':'') \<noteq> None then Inl TooManyColons
                   else splitFinish hostport i host 0 0))"

text \<open>
  \<open>http.Header.Get\<close>: the first value stored under the canonical form of the key, or the
  empty string. The canonical form capitalises the first letter and every letter after a
  hyphen and lowers the rest.
\<close>

definition toUpper :: "char \<Rightarrow> char" where
  "toUpper c = (if 97 \<le> (of_char c :: nat) \<and> (of_char c :: nat) \<le> 122
                then char_of ((of_char c :: nat) - 32) else c)"

definition toLower :: "char \<Rightarrow> char" where
  "toLower c = (if 65 \<le> (of_char c :: nat) \<and> (of_char c :: nat) \<le> 90
                then char_of ((of_char c :: nat) + 32) else c)"

fun canonicalKey :: "bool \<Rightarrow> string \<Rightarrow> string" where
  "canonicalKey up [] = []"
| "canonicalKey up (c # cs) =
     (if up then toUpper c else toLower c) # canonicalKey (c = CHR ''-'') cs"

type_synonym header = "string \<rightharpoonup> string list"

definition Header_Get :: "header \<Rightarrow> string \<Rightarrow> string" where
  "Header_Get h key =
     (case h (canonicalKey True key) of
        None \<Rightarrow> []
      | Some [] \<Rightarrow> []
      | Some (v # vs) \<Rightarrow> v)"

section \<open>The request, the client and the two pure helpers of handler.go\<close>

definition httpConnectMethod :: string where
  "httpConnectMethod = ''CONNECT''"

definition httpXFlashlightQOS :: string where
  "httpXFlashlightQOS = ''X-Flashlight-QOS''"

record request =
  Method :: string
  Host :: string
  Header :: header

text \<open>
  The fields of \<open>Client\<close> that the handler reads, and the two facts about the platform it
  depends on (\<open>runtime.GOOS\<close> and the width of \<open>int\<close>).
\<close>

record platform =
  GOOS :: string
  intSize :: nat

record client =
  MinQOS :: int
  ProxyAll :: bool

definition targetQOS :: "platform \<Rightarrow> client \<Rightarrow> request \<Rightarrow> int" where
  "targetQOS pf cl req =
     (let requestedQOS = Header_Get (Header req) httpXFlashlightQOS
      in if requestedQOS \<noteq> []
         then (case atoi (intSize pf) requestedQOS of
                 Inr rqos \<Rightarrow> rqos
               | Inl err \<Rightarrow> MinQOS cl)
         else MinQOS cl)"

definition hostIncludingPort :: "request \<Rightarrow> int \<Rightarrow> string" where
  "hostIncludingPort req defaultPort =
     (case SplitHostPort (Host req) of
        Inl err \<Rightarrow> Host req @ '':'' @ itoa defaultPort
      | Inr (h, port) \<Rightarrow>
          if port = [] then Host req @ '':'' @ itoa defaultPort else Host req)"


text \<open>
  The reading of "a decimal integer" that the specification gives for the header: an
  optional sign and at least one decimal digit, valued in base ten. It is defined apart
  from \<open>atoi\<close> and compared with it below.
\<close>

definition digitsValue :: "string \<Rightarrow> nat" where
  "digitsValue ds = foldl (\<lambda>a c. 10 * a + digitVal c) 0 ds"

definition spec_decimal :: "string \<Rightarrow> int option" where
  "spec_decimal s =
     (let neg = (take 1 s = ''-'');
          ds = (if take 1 s = ''-'' \<or> take 1 s = ''+'' then drop 1 s else s)
      in if ds \<noteq> [] \<and> list_all isDigit ds
         then Some (if neg then - int (digitsValue ds) else int (digitsValue ds))
         else None)"

definition fitsInt :: "nat \<Rightarrow> int \<Rightarrow> bool" where
  "fitsInt w n = (- (2 ^ (w - 1)) \<le> n \<and> n < 2 ^ (w - 1))"

text \<open>A host or port part that holds no colon and no square bracket.\<close>

definition plainPart :: "string \<Rightarrow> bool" where
  "plainPart s =
     list_all (\<lambda>c. c \<noteq> CHR '':'' \<and> c \<noteq> CHR ''['' \<and> c \<noteq> CHR '']'') s"

section \<open>One tunnel attempt as an interleaving of the handler and its copy task\<close>

text \<open>
  \<open>intercept\<close> runs in the calling goroutine and, through \<open>pipeData\<close>, starts one more
  goroutine. Both act on shared state: the two registries (\<open>clientConns\<close>, \<open>conns\<close>,
  every access under \<open>muConns\<close>), the sockets and the \<open>sync.WaitGroup\<close>. The model keeps
  a program counter for each of the two, executes one statement of one of them per step
  and lets a schedule choose which. A blocking call (\<open>io.Copy\<close>, \<open>wg.Wait\<close>) is a step
  that the schedule may delay for as long as it likes; the step of \<open>io.Copy\<close> is the moment
  the copy ends. The bytes of the tunnel are not modelled.

  A connection object is identified by a number. An \<open>error\<close> is identified with its text.
\<close>

type_synonym conn = nat

record connMeta =
  hostAddr :: string
  peerAddr :: string
  establishedAt :: nat

text \<open>
  The responses of the handler are \<open>http.Response\<close> values with only the status code and
  the protocol version set: no \<open>Body\<close>, no \<open>Header\<close>, \<open>ContentLength\<close> at its zero value.
  For such a response \<open>http.Response.Write\<close> (Go standard library) writes the status
  line, the line \<open>Content-Length: 0\<close> and the empty line that ends the head, in several
  writes on the writer, and returns at the first write that fails.
\<close>

record response =
  StatusCode :: nat
  ProtoMajor :: nat
  ProtoMinor :: nat
  ContentLength :: int

definition handlerResponse :: "nat \<Rightarrow> response" where
  "handlerResponse code =
     \<lparr>StatusCode = code, ProtoMajor = 1, ProtoMinor = 1, ContentLength = 0\<rparr>"

definition crlf :: string where
  "crlf = [CHR 0x0D, CHR 0x0A]"

text \<open>\<open>http.StatusText\<close>, for the two codes the handler uses; empty for an unknown code.\<close>

definition StatusText :: "nat \<Rightarrow> string" where
  "StatusText code =
     (if code = 200 then ''OK'' else if code = 502 then ''Bad Gateway'' else [])"

definition statusLine :: "response \<Rightarrow> string" where
  "statusLine r =
     ''HTTP/'' @ itoa (int (ProtoMajor r)) @ ''.'' @ itoa (int (ProtoMinor r)) @ '' ''
     @ itoa (int (StatusCode r)) @ '' ''
     @ (if StatusText (StatusCode r) = [] then ''status code '' @ itoa (int (StatusCode r))
        else StatusText (StatusCode r))
     @ crlf"

definition headBytes :: "response \<Rightarrow> string" where
  "headBytes r = statusLine r @ ''Content-Length: '' @ itoa (ContentLength r) @ crlf @ crlf"

text \<open>
  What has reached a writer: the complete head of the handler's response with the given
  status code; a part of such a head, the bytes that were accepted before a write of
  \<open>http.Response.Write\<close> failed; or raw bytes (\<open>w.Write\<close>). \<open>received\<close> gives the bytes.
\<close>

datatype wire = ResponseHead nat | HeadPart nat string | Bytes string




datatype logLine = Debug string | Error string

text \<open>
  The collaborators of one attempt. \<open>hijack\<close> is the outcome of
  \<open>resp.(http.Hijacker).Hijack()\<close>: the response writer may lack the capability, in which
  case the unchecked type assertion panics. \<open>remoteAddr c\<close> is the text of
  \<open>c.RemoteAddr().String()\<close>, or \<open>None\<close> when that call panics. \<open>headWrite\<close> and
  \<open>bodyWrite\<close> are the errors, if any, of the one \<open>resp.Write(w)\<close> and the one
  \<open>w.Write(msg)\<close> that an attempt can perform; when \<open>resp.Write(w)\<close> fails, the writer
  has accepted the first \<open>headAccepted\<close> bytes of the head, and when \<open>w.Write(msg)\<close> fails,
  the first \<open>bodyAccepted\<close> bytes of the message. \<open>nowClient\<close> and \<open>nowOut\<close> are the two
  readings of \<open>time.Now()\<close>.
\<close>

datatype hijackResult = NotHijacker | HijackError string | Hijacked conn

type_synonym dialFn = "string \<Rightarrow> string \<Rightarrow> string + conn"

record world =
  hijack :: hijackResult
  remoteAddr :: "conn \<Rightarrow> string option"
  DialQOS :: "string \<Rightarrow> string \<Rightarrow> int \<Rightarrow> string + conn"
  detour_Dialer :: "dialFn \<Rightarrow> dialFn"
  headWrite :: "string option"
  bodyWrite :: "string option"
  headAccepted :: nat
  bodyAccepted :: nat
  nowClient :: nat
  nowOut :: nat

record setting =
  platformOf :: platform
  clientOf :: client
  worldOf :: world
  requestOf :: request

text \<open>
  Program counters. Handler, in \<open>intercept\<close>: \<open>Hijacking\<close> (lines 81-92),
  \<open>RegisterClient\<close> (93-101), \<open>Dialing\<close> (103-114), \<open>RespondingBadGateway\<close> (116-119),
  \<open>RegisterOut\<close> (121-138); in \<open>pipeData\<close>: \<open>PipeSpawn\<close> (163-174), \<open>RespondingOK\<close>
  (177), \<open>ReleaseSignal\<close> (178-182), \<open>CopyOutToClient\<close> (185); the deferred functions,
  last registered first: \<open>CloseOut\<close> (134), \<open>DeregisterOut\<close> (135-137), \<open>CloseClient\<close>
  (97), \<open>DeregisterClient\<close> (98-100); then \<open>Returned\<close>, or \<open>Panicked\<close> when a panic
  left \<open>intercept\<close>. Copy task (lines 166-174): \<open>CopyClientToOut\<close> (167), \<open>AwaitSignal\<close>
  (172), \<open>TaskCloseClient\<close> (173).
\<close>

datatype mpc =
    Hijacking | RegisterClient | Dialing | RespondingBadGateway | RegisterOut
  | PipeSpawn | RespondingOK | ReleaseSignal | CopyOutToClient
  | CloseOut | DeregisterOut | CloseClient | DeregisterClient
  | Returned | Panicked

datatype gpc = NotSpawned | CopyClientToOut | AwaitSignal | TaskCloseClient | TaskDone

datatype tid = Handler | CopyTask

text \<open>
  The calls and releases that the claims count, in the order in which they happen:
  \<open>d\<close> called by the handler itself, \<open>detour.Dialer(d)\<close>, the call of the function that
  \<open>detour.Dialer\<close> returned, the return of \<open>respondOK\<close> with its error,
  \<open>wg.Done()\<close>, and \<open>Close\<close> on a connection with the goroutine that called it.
\<close>

datatype event =
    EvBaseDial string string
  | EvDetourDialer
  | EvWrappedDial string string
  | EvRespondOK "string option"
  | EvWgDone
  | EvClose tid conn

record state =
  mpc :: mpc
  gpc :: gpc
  wg :: int
  clientConns :: "conn \<rightharpoonup> connMeta"
  conns :: "conn \<rightharpoonup> connMeta"
  closed :: "conn set"
  clientConn :: "conn option"
  connOut :: "conn option"
  addr :: string
  dialErr :: "string option"
  okErr :: "string option"
  sinkOut :: "wire list"
  clientOut :: "wire list"
  logs :: "logLine list"
  trace :: "event list"

definition init :: "(conn \<rightharpoonup> connMeta) \<Rightarrow> (conn \<rightharpoonup> connMeta) \<Rightarrow> state" where
  "init cs0 ss0 =
     \<lparr>mpc = Hijacking, gpc = NotSpawned, wg = 0, clientConns = cs0, conns = ss0,
      closed = {}, clientConn = None, connOut = None, addr = [], dialErr = None,
      okErr = None, sinkOut = [], clientOut = [], logs = [], trace = []\<rparr>"

text \<open>
  \<open>respondBadGateway\<close> and \<open>respondOK\<close>: what the writer accepted and the error returned.
  A failed write of the head leaves the part of the head that was accepted on the writer;
  the message is written only when the whole head was. That \<open>respondOK\<close> closes the
  body of the request is left out, and so is the dispatch in \<open>ServeHTTP\<close>, which calls
  \<open>intercept\<close> for CONNECT requests only; the check of the method at the head of
  \<open>intercept\<close> is part of the \<open>Hijacking\<close> step.
\<close>

definition respondBadGateway :: "world \<Rightarrow> string \<Rightarrow> wire list \<times> string option" where
  "respondBadGateway w msg =
     (case headWrite w of
        Some e \<Rightarrow>
          ([HeadPart 502 (take (headAccepted w) (headBytes (handlerResponse 502)))], Some e)
      | None \<Rightarrow>
          (case bodyWrite w of
             Some e \<Rightarrow> ([ResponseHead 502, Bytes (take (bodyAccepted w) msg)], Some e)
           | None \<Rightarrow> ([ResponseHead 502, Bytes msg], None)))"

definition respondOK :: "world \<Rightarrow> wire list \<times> string option" where
  "respondOK w =
     (case headWrite w of
        Some e \<Rightarrow>
          ([HeadPart 200 (take (headAccepted w) (headBytes (handlerResponse 200)))], Some e)
      | None \<Rightarrow> ([ResponseHead 200], None))"

definition forceDirect :: "setting \<Rightarrow> bool" where
  "forceDirect st = (GOOS (platformOf st) = ''android'' \<or> ProxyAll (clientOf st))"

text \<open>The closure \<open>d\<close> of \<open>intercept\<close>: it ignores its network argument.\<close>

definition baseDial :: "setting \<Rightarrow> dialFn" where
  "baseDial st = (\<lambda>network a. DialQOS (worldOf st) ''tcp'' a (targetQOS (platformOf st) (clientOf st) (requestOf st)))"

text \<open>
  Lines 103-114: the address the handler dials, the dial function it selects and calls,
  and the calls that makes.
\<close>

definition resolved :: "setting \<Rightarrow> string" where
  "resolved st = hostIncludingPort (requestOf st) 443"

definition selectedDial :: "setting \<Rightarrow> string + conn" where
  "selectedDial st =
     (if forceDirect st then baseDial st ''tcp'' (resolved st)
      else detour_Dialer (worldOf st) (baseDial st) ''tcp'' (resolved st))"

definition dialEvents :: "setting \<Rightarrow> event list" where
  "dialEvents st =
     (if forceDirect st then [EvBaseDial ''tcp'' (resolved st)]
      else [EvDetourDialer, EvWrappedDial ''tcp'' (resolved st)])"

definition handlerStep :: "setting \<Rightarrow> state \<Rightarrow> state" where
  "handlerStep st s =
     (case mpc s of
        Hijacking \<Rightarrow>
          if Method (requestOf st) \<noteq> httpConnectMethod then s\<lparr>mpc := Panicked\<rparr>
          else (case hijack (worldOf st) of
                  NotHijacker \<Rightarrow> s\<lparr>mpc := Panicked\<rparr>
                | HijackError e \<Rightarrow>
                    s\<lparr>mpc := Returned,
                      sinkOut := sinkOut s
                        @ fst (respondBadGateway (worldOf st) (''Unable to hijack connection: '' @ e)),
                      logs := logs s
                        @ [Debug (''Responding BadGateway: '' @ ''Unable to hijack connection: '' @ e)]\<rparr>
                | Hijacked c \<Rightarrow> s\<lparr>mpc := RegisterClient, clientConn := Some c\<rparr>)
      | RegisterClient \<Rightarrow>
          (case clientConn s of
             None \<Rightarrow> s
           | Some c \<Rightarrow>
               (case remoteAddr (worldOf st) c of
                  None \<Rightarrow> s\<lparr>mpc := Panicked\<rparr>
                | Some a \<Rightarrow>
                    s\<lparr>mpc := Dialing,
                      clientConns := (clientConns s)
                        (c \<mapsto> \<lparr>hostAddr = Host (requestOf st), peerAddr = a,
                                establishedAt = nowClient (worldOf st)\<rparr>)\<rparr>))
      | Dialing \<Rightarrow>
          (case selectedDial st of
             Inl e \<Rightarrow>
               s\<lparr>mpc := RespondingBadGateway, addr := resolved st, dialErr := Some e,
                 trace := trace s @ dialEvents st\<rparr>
           | Inr c \<Rightarrow>
               s\<lparr>mpc := RegisterOut, addr := resolved st, connOut := Some c,
                 trace := trace s @ dialEvents st\<rparr>)
      | RespondingBadGateway \<Rightarrow>
          (case dialErr s of
             None \<Rightarrow> s
           | Some e \<Rightarrow>
               s\<lparr>mpc := CloseClient,
                 clientOut := clientOut s
                   @ fst (respondBadGateway (worldOf st) (''Unable to handle CONNECT request: '' @ e)),
                 logs := logs s
                   @ [Debug (''Responding BadGateway: '' @ ''Unable to handle CONNECT request: '' @ e)]\<rparr>)
      | RegisterOut \<Rightarrow>
          (case connOut s of
             None \<Rightarrow> s
           | Some c \<Rightarrow>
               s\<lparr>mpc := PipeSpawn,
                 conns := (conns s)
                   (c \<mapsto> \<lparr>hostAddr = addr s,
                           peerAddr = (case remoteAddr (worldOf st) c of None \<Rightarrow> [] | Some a \<Rightarrow> a),
                           establishedAt = nowOut (worldOf st)\<rparr>)\<rparr>)
      | PipeSpawn \<Rightarrow> s\<lparr>mpc := RespondingOK, gpc := CopyClientToOut, wg := wg s + 1\<rparr>
      | RespondingOK \<Rightarrow>
          s\<lparr>mpc := ReleaseSignal,
            clientOut := clientOut s @ fst (respondOK (worldOf st)),
            okErr := snd (respondOK (worldOf st)),
            trace := trace s @ [EvRespondOK (snd (respondOK (worldOf st)))]\<rparr>
      | ReleaseSignal \<Rightarrow>
          (case okErr s of
             Some e \<Rightarrow>
               s\<lparr>mpc := CloseOut, wg := wg s - 1, trace := trace s @ [EvWgDone],
                 logs := logs s @ [Error (''Unable to respond OK: '' @ e)]\<rparr>
           | None \<Rightarrow> s\<lparr>mpc := CopyOutToClient, wg := wg s - 1, trace := trace s @ [EvWgDone]\<rparr>)
      | CopyOutToClient \<Rightarrow> s\<lparr>mpc := CloseOut\<rparr>
      | CloseOut \<Rightarrow>
          (case connOut s of
             None \<Rightarrow> s
           | Some c \<Rightarrow>
               s\<lparr>mpc := DeregisterOut, closed := insert c (closed s),
                 trace := trace s @ [EvClose Handler c]\<rparr>)
      | DeregisterOut \<Rightarrow>
          (case connOut s of
             None \<Rightarrow> s
           | Some c \<Rightarrow> s\<lparr>mpc := CloseClient, conns := (conns s)(c := None)\<rparr>)
      | CloseClient \<Rightarrow>
          (case clientConn s of
             None \<Rightarrow> s
           | Some c \<Rightarrow>
               s\<lparr>mpc := DeregisterClient, closed := insert c (closed s),
                 trace := trace s @ [EvClose Handler c]\<rparr>)
      | DeregisterClient \<Rightarrow>
          (case clientConn s of
             None \<Rightarrow> s
           | Some c \<Rightarrow> s\<lparr>mpc := Returned, clientConns := (clientConns s)(c := None)\<rparr>)
      | Returned \<Rightarrow> s
      | Panicked \<Rightarrow> s)"

definition taskStep :: "state \<Rightarrow> state" where
  "taskStep s =
     (case gpc s of
        NotSpawned \<Rightarrow> s
      | CopyClientToOut \<Rightarrow> s\<lparr>gpc := AwaitSignal\<rparr>
      | AwaitSignal \<Rightarrow> if wg s = 0 then s\<lparr>gpc := TaskCloseClient\<rparr> else s
      | TaskCloseClient \<Rightarrow>
          (case clientConn s of
             None \<Rightarrow> s
           | Some c \<Rightarrow>
               s\<lparr>gpc := TaskDone, closed := insert c (closed s),
                 trace := trace s @ [EvClose CopyTask c]\<rparr>)
      | TaskDone \<Rightarrow> s)"

definition step :: "setting \<Rightarrow> tid \<Rightarrow> state \<Rightarrow> state" where
  "step st t s = (case t of Handler \<Rightarrow> handlerStep st s | CopyTask \<Rightarrow> taskStep s)"

fun run :: "setting \<Rightarrow> tid list \<Rightarrow> state \<Rightarrow> state" where
  "run st [] s = s"
| "run st (t # ts) s = run st ts (step st t s)"

text \<open>
  The state of an attempt after a schedule, for registries that held \<open>cs0\<close> and \<open>ss0\<close>
  (the entries of other attempts) when it began.
\<close>

definition attempt ::
  "setting \<Rightarrow> (conn \<rightharpoonup> connMeta) \<Rightarrow> (conn \<rightharpoonup> connMeta) \<Rightarrow> tid list \<Rightarrow> state" where
  "attempt st cs0 ss0 sched = run st sched (init cs0 ss0)"




section \<open>Positions of the handler, and invariants of an attempt\<close>

text \<open>
  Sets of handler positions: where the locals \<open>clientConn\<close> and \<open>connOut\<close> are set; between
  \<open>wg.Add(1)\<close> and \<open>wg.Done()\<close>; after \<open>wg.Done()\<close> on a path through \<open>pipeData\<close>; between
  the registration of a socket and its removal from the registry.
\<close>

definition needsClient :: "mpc \<Rightarrow> bool" where
  "needsClient p = (p \<noteq> Hijacking \<and> p \<noteq> Returned \<and> p \<noteq> Panicked)"

definition needsOut :: "mpc \<Rightarrow> bool" where
  "needsOut p =
     (p = RegisterOut \<or> p = PipeSpawn \<or> p = RespondingOK \<or> p = ReleaseSignal
      \<or> p = CopyOutToClient \<or> p = CloseOut \<or> p = DeregisterOut)"

definition awaitingRelease :: "mpc \<Rightarrow> bool" where
  "awaitingRelease p = (p = RespondingOK \<or> p = ReleaseSignal)"

definition afterRelease :: "mpc \<Rightarrow> bool" where
  "afterRelease p =
     (p = CopyOutToClient \<or> p = CloseOut \<or> p = DeregisterOut \<or> p = CloseClient
      \<or> p = DeregisterClient \<or> p = Returned)"

definition clientRegistered :: "mpc \<Rightarrow> bool" where
  "clientRegistered p = (needsClient p \<and> p \<noteq> RegisterClient)"

definition outRegistered :: "mpc \<Rightarrow> bool" where
  "outRegistered p = (needsOut p \<and> p \<noteq> RegisterOut)"

definition outDeregistered :: "mpc \<Rightarrow> bool" where
  "outDeregistered p = (p = CloseClient \<or> p = DeregisterClient \<or> p = Returned)"

definition outClosed :: "mpc \<Rightarrow> bool" where
  "outClosed p = (p = DeregisterOut \<or> outDeregistered p)"

definition clientClosedByHandler :: "mpc \<Rightarrow> bool" where
  "clientClosedByHandler p = (p = DeregisterClient \<or> p = Returned)"

text \<open>How far the handler and the copy task have come.\<close>

fun stage :: "mpc \<Rightarrow> nat" where
  "stage Hijacking = 0"
| "stage RegisterClient = 1"
| "stage Dialing = 2"
| "stage RespondingBadGateway = 3"
| "stage RegisterOut = 3"
| "stage PipeSpawn = 4"
| "stage RespondingOK = 5"
| "stage ReleaseSignal = 6"
| "stage CopyOutToClient = 7"
| "stage CloseOut = 8"
| "stage DeregisterOut = 9"
| "stage CloseClient = 10"
| "stage DeregisterClient = 11"
| "stage Returned = 12"
| "stage Panicked = 12"

fun taskStage :: "gpc \<Rightarrow> nat" where
  "taskStage NotSpawned = 0"
| "taskStage CopyClientToOut = 0"
| "taskStage AwaitSignal = 1"
| "taskStage TaskCloseClient = 2"
| "taskStage TaskDone = 3"

fun isDialEvent :: "event \<Rightarrow> bool" where
  "isDialEvent (EvBaseDial n a) = True"
| "isDialEvent EvDetourDialer = True"
| "isDialEvent (EvWrappedDial n a) = True"
| "isDialEvent (EvRespondOK r) = False"
| "isDialEvent EvWgDone = False"
| "isDialEvent (EvClose t c) = False"

definition peerOf :: "setting \<Rightarrow> conn \<Rightarrow> string" where
  "peerOf st c = (case remoteAddr (worldOf st) c of None \<Rightarrow> [] | Some a \<Rightarrow> a)"

definition clientMeta :: "setting \<Rightarrow> conn \<Rightarrow> connMeta" where
  "clientMeta st c =
     \<lparr>hostAddr = Host (requestOf st), peerAddr = peerOf st c,
      establishedAt = nowClient (worldOf st)\<rparr>"

definition outMeta :: "setting \<Rightarrow> conn \<Rightarrow> connMeta" where
  "outMeta st c =
     \<lparr>hostAddr = resolved st, peerAddr = peerOf st c, establishedAt = nowOut (worldOf st)\<rparr>"

text \<open>\<open>before a b tr\<close>: if \<open>b\<close> occurs in \<open>tr\<close>, then \<open>a\<close> occurs ahead of its first occurrence.\<close>

definition before :: "event \<Rightarrow> event \<Rightarrow> event list \<Rightarrow> bool" where
  "before a b tr = (b \<in> set tr \<longrightarrow> a \<in> set (takeWhile (\<lambda>e. e \<noteq> b) tr))"

text \<open>
  \<open>control\<close>: the locals are set where they are used, the copy task exists exactly on the
  path through \<open>pipeData\<close>, the counter of the wait group is 1 between \<open>Add\<close> and \<open>Done\<close>
  and 0 otherwise, and the copy task is past \<open>wg.Wait()\<close> only after \<open>wg.Done()\<close>.
\<close>

definition control :: "state \<Rightarrow> bool" where
  "control s =
     ((needsClient (mpc s) \<longrightarrow> clientConn s \<noteq> None)
      \<and> (mpc s = Hijacking \<longrightarrow> clientConn s = None)
      \<and> (needsOut (mpc s) \<longrightarrow> connOut s \<noteq> None)
      \<and> (mpc s = Hijacking \<or> mpc s = RegisterClient \<or> mpc s = Dialing
            \<or> mpc s = RespondingBadGateway \<longrightarrow> connOut s = None)
      \<and> (mpc s = RespondingBadGateway \<longrightarrow> dialErr s \<noteq> None)
      \<and> (gpc s \<noteq> NotSpawned \<longrightarrow>
           clientConn s \<noteq> None \<and> connOut s \<noteq> None
           \<and> (awaitingRelease (mpc s) \<or> afterRelease (mpc s)))
      \<and> (awaitingRelease (mpc s) \<or> mpc s = CopyOutToClient \<or> mpc s = CloseOut
            \<or> mpc s = DeregisterOut \<longrightarrow> gpc s \<noteq> NotSpawned)
      \<and> wg s = (if awaitingRelease (mpc s) then 1 else 0)
      \<and> (gpc s = TaskCloseClient \<or> gpc s = TaskDone \<longrightarrow> afterRelease (mpc s)))"

text \<open>\<open>traced\<close>: what the trace holds at each position, and in which order.\<close>

definition traced :: "setting \<Rightarrow> state \<Rightarrow> bool" where
  "traced st s =
     (count_list (trace s) EvWgDone
        = (if gpc s \<noteq> NotSpawned \<and> afterRelease (mpc s) then 1 else 0)
      \<and> (gpc s \<noteq> NotSpawned \<and> mpc s \<noteq> RespondingOK \<longrightarrow>
            EvRespondOK (snd (respondOK (worldOf st))) \<in> set (trace s))
      \<and> (gpc s \<noteq> NotSpawned \<and> afterRelease (mpc s) \<longrightarrow> EvWgDone \<in> set (trace s))
      \<and> (\<forall>c. EvClose CopyTask c \<in> set (trace s) \<longrightarrow> gpc s = TaskDone)
      \<and> (\<forall>c. before (EvRespondOK (snd (respondOK (worldOf st)))) (EvClose CopyTask c) (trace s))
      \<and> (\<forall>c. before EvWgDone (EvClose CopyTask c) (trace s))
      \<and> (\<forall>c. clientConn s = Some c \<and> clientClosedByHandler (mpc s) \<longrightarrow>
            EvClose Handler c \<in> set (trace s))
      \<and> (\<forall>c. connOut s = Some c \<and> outClosed (mpc s) \<longrightarrow> EvClose Handler c \<in> set (trace s))
      \<and> (\<forall>c. clientConn s = Some c \<and> gpc s = TaskDone \<longrightarrow>
            EvClose CopyTask c \<in> set (trace s)))"

text \<open>
  The two registries and the set of closed connections as functions of the positions,
  for registries that held \<open>cs0\<close> and \<open>ss0\<close> when the attempt began.
\<close>

definition clientReg :: "setting \<Rightarrow> (conn \<rightharpoonup> connMeta) \<Rightarrow> state \<Rightarrow> bool" where
  "clientReg st cs0 s =
     ((clientConn s = None \<longrightarrow> clientConns s = cs0)
      \<and> (\<forall>c. clientConn s = Some c \<longrightarrow>
            hijack (worldOf st) = Hijacked c
            \<and> (clientRegistered (mpc s) \<longrightarrow> remoteAddr (worldOf st) c \<noteq> None)
            \<and> clientConns s
                = (if clientRegistered (mpc s) then cs0(c \<mapsto> clientMeta st c)
                   else if mpc s = Returned then cs0(c := None)
                   else cs0)))"

definition outReg :: "setting \<Rightarrow> (conn \<rightharpoonup> connMeta) \<Rightarrow> state \<Rightarrow> bool" where
  "outReg st ss0 s =
     ((connOut s \<noteq> None \<or> dialErr s \<noteq> None \<longrightarrow> addr s = resolved st)
      \<and> (connOut s = None \<longrightarrow> conns s = ss0)
      \<and> (\<forall>c. connOut s = Some c \<longrightarrow>
            conns s
              = (if outRegistered (mpc s) then ss0(c \<mapsto> outMeta st c)
                 else if outDeregistered (mpc s) then ss0(c := None)
                 else ss0)))"

definition closedInv :: "state \<Rightarrow> bool" where
  "closedInv s =
     (\<forall>c. (c \<in> closed s)
            = (clientConn s = Some c \<and> (clientClosedByHandler (mpc s) \<or> gpc s = TaskDone)
               \<or> connOut s = Some c \<and> outClosed (mpc s)))"

text \<open>
  \<open>dialed\<close>: no dial call before the \<open>Dialing\<close> step; after it the calls of the selected
  strategy and its outcome in the locals. \<open>outputs\<close>: what has been written and logged.
\<close>

definition dialed :: "setting \<Rightarrow> state \<Rightarrow> bool" where
  "dialed st s =
     ((dialErr s = None \<and> connOut s = None \<longrightarrow>
         filter isDialEvent (trace s) = []
         \<and> (mpc s = Hijacking \<or> mpc s = RegisterClient \<or> mpc s = Dialing
            \<or> mpc s = Returned \<and> clientConn s = None \<or> mpc s = Panicked))
      \<and> (dialErr s \<noteq> None \<or> connOut s \<noteq> None \<longrightarrow>
            filter isDialEvent (trace s) = dialEvents st)
      \<and> (\<forall>e. dialErr s = Some e \<longrightarrow> selectedDial st = Inl e)
      \<and> (\<forall>c. connOut s = Some c \<longrightarrow> selectedDial st = Inr c)
      \<and> (dialErr s \<noteq> None \<longrightarrow>
            connOut s = None \<and> gpc s = NotSpawned
            \<and> (mpc s = RespondingBadGateway \<or> mpc s = CloseClient \<or> mpc s = DeregisterClient
               \<or> mpc s = Returned)))"

definition outputs :: "setting \<Rightarrow> state \<Rightarrow> bool" where
  "outputs st s =
     ((\<forall>e. dialErr s = Some e \<longrightarrow>
           clientOut s
             = (if mpc s = RespondingBadGateway then []
                else fst (respondBadGateway (worldOf st)
                            (''Unable to handle CONNECT request: '' @ e))))
      \<and> (dialErr s = None \<longrightarrow>
            clientOut s
              = (if gpc s \<noteq> NotSpawned \<and> mpc s \<noteq> RespondingOK
                 then fst (respondOK (worldOf st)) else []))
      \<and> (\<forall>e. hijack (worldOf st) = HijackError e \<longrightarrow>
            clientConn s = None
            \<and> sinkOut s
                = (if mpc s = Returned
                   then fst (respondBadGateway (worldOf st)
                               (''Unable to hijack connection: '' @ e))
                   else []))
      \<and> (hijack (worldOf st) = NotHijacker \<longrightarrow> clientConn s = None)
      \<and> ((\<forall>e. hijack (worldOf st) \<noteq> HijackError e) \<longrightarrow> sinkOut s = [])
      \<and> (mpc s = ReleaseSignal \<longrightarrow> okErr s = snd (respondOK (worldOf st)))
      \<and> (mpc s = CopyOutToClient \<longrightarrow> snd (respondOK (worldOf st)) = None)
      \<and> (\<forall>e. gpc s \<noteq> NotSpawned \<and> afterRelease (mpc s)
              \<and> snd (respondOK (worldOf st)) = Some e \<longrightarrow>
            Error (''Unable to respond OK: '' @ e) \<in> set (logs s))
      \<and> (mpc s = Panicked \<longrightarrow>
            Method (requestOf st) \<noteq> httpConnectMethod
            \<or> hijack (worldOf st) = NotHijacker
            \<or> (\<exists>c. clientConn s = Some c \<and> remoteAddr (worldOf st) c = None))
      \<and> (mpc s = Returned \<and> clientConn s = None \<longrightarrow>
            (\<exists>e. hijack (worldOf st) = HijackError e))
      \<and> (mpc s \<noteq> Hijacking \<and> mpc s \<noteq> Panicked \<longrightarrow>
            Method (requestOf st) = httpConnectMethod))"

text \<open>All of them together; every state that a schedule reaches from the initial state meets them.\<close>

definition invariants ::
  "setting \<Rightarrow> (conn \<rightharpoonup> connMeta) \<Rightarrow> (conn \<rightharpoonup> connMeta) \<Rightarrow> state \<Rightarrow> bool" where
  "invariants st cs0 ss0 s =
     (control s \<and> traced st s \<and> clientReg st cs0 s \<and> outReg st ss0 s \<and> closedInv s
      \<and> dialed st s \<and> outputs st s)"

section \<open>Example settings\<close>

text \<open>
  A client at \<open>10.0.0.1:5000\<close> behind connection 3; the balancer reaches
  \<open>example.com:443\<close> through connection 4 and nothing else; the detour layer dials straight
  through its base dial function; every write succeeds (were one to fail, it would
  accept no byte).
\<close>

definition exampleWorld :: world where
  "exampleWorld =
     \<lparr>hijack = Hijacked 3,
      remoteAddr = (\<lambda>c. if c = 3 then Some ''10.0.0.1:5000''
                         else if c = 4 then Some ''93.184.216.34:443'' else None),
      DialQOS = (\<lambda>network a q. if a = ''example.com:443'' then Inr 4
                                   else Inl ''no route to host''),
      detour_Dialer = (\<lambda>d. d),
      headWrite = None, bodyWrite = None, headAccepted = 0, bodyAccepted = 0,
      nowClient = 10, nowOut = 11\<rparr>"

definition exampleSetting :: "bool \<Rightarrow> world \<Rightarrow> string \<Rightarrow> setting" where
  "exampleSetting direct w h =
     \<lparr>platformOf = \<lparr>GOOS = ''linux'', intSize = 64\<rparr>,
      clientOf = \<lparr>MinQOS = 0, ProxyAll = direct\<rparr>,
      worldOf = w,
      requestOf = \<lparr>Method = ''CONNECT'', Host = h, Header = Map.empty\<rparr>\<rparr>"

text \<open>
  A schedule in which the client stops sending at once: the copy task ends its copy and
  waits while the handler is still about to answer; it closes the client socket as soon
  as the handler has released the signal and has begun to copy from the outbound socket.
  Five more steps of the handler complete the attempt.
\<close>

definition earlyCloseSchedule :: "tid list" where
  "earlyCloseSchedule =
     [Handler, Handler, Handler, Handler, Handler, CopyTask, CopyTask, Handler, CopyTask,
      Handler, CopyTask, CopyTask]"

definition completeSchedule :: "tid list" where
  "completeSchedule = earlyCloseSchedule @ [Handler, Handler, Handler, Handler, Handler]"

text \<open>Twelve steps of the handler alone, and seven: up to the release of the signal.\<close>

definition handlerSteps :: "tid list" where
  "handlerSteps =
     [Handler, Handler, Handler, Handler, Handler, Handler, Handler, Handler, Handler,
      Handler, Handler, Handler]"

definition upToRelease :: "tid list" where
  "upToRelease = [Handler, Handler, Handler, Handler, Handler, Handler, Handler]"

section \<open>Facts about the library functions\<close>

lemma canonical_qos_key: "canonicalKey True httpXFlashlightQOS = ''X-Flashlight-Qos''"
  by code_simp

lemma itoa_443: "itoa 443 = ''443''"
  by code_simp

lemma parseDigits_foldl:
  "parseDigits ds acc =
     (if list_all isDigit ds then Some (foldl (\<lambda>a c. 10 * a + digitVal c) acc ds) else None)"
  by (induction ds arbitrary: acc) (simp_all add: mult.commute)

lemma atoiUnsigned_spec:
  "atoiUnsigned w neg ds =
     (if ds \<noteq> [] \<and> list_all isDigit ds
      then (if fitsInt w (if neg then - int (digitsValue ds) else int (digitsValue ds))
            then Inr (if neg then - int (digitsValue ds) else int (digitsValue ds))
            else Inl ErrRange)
      else Inl ErrSyntax)"
proof -
  obtain m :: nat where m: "m = 2 ^ (w - 1)" by simp
  have e: "(2::int) ^ (w - 1) = int m" by (simp add: m)
  have mpos: "0 < m" by (simp add: m)
  have fits_neg: "fitsInt w (- int n) = (n \<le> 2 ^ (w - 1))" for n
    unfolding fitsInt_def e m [symmetric] using mpos by auto
  have fits_pos: "fitsInt w (int n) = (n < 2 ^ (w - 1))" for n
    unfolding fitsInt_def e m [symmetric] by auto
  show ?thesis
    unfolding atoiUnsigned_def parseDigits_foldl digitsValue_def [symmetric]
    by (cases neg) (simp_all add: fits_neg fits_pos)
qed

text \<open>
  \<open>atoi\<close> accepts exactly the decimal integers that fit into \<open>int\<close>, and returns their
  value.
\<close>

lemma atoi_spec:
  "atoi w s =
     (case spec_decimal s of
        None \<Rightarrow> Inl ErrSyntax
      | Some n \<Rightarrow> if fitsInt w n then Inr n else Inl ErrRange)"
  by (cases s) (simp_all add: atoi_def atoiUnsigned_spec spec_decimal_def Let_def)

lemma indexByte_None_iff: "(indexByte s c = None) = (c \<notin> set s)"
  by (induction s) auto

lemma indexByte_first: "c \<notin> set p \<Longrightarrow> indexByte (p @ c # h) c = Some (length p)"
  by (induction p) auto

lemma lastIndexByte_absent: "c \<notin> set s \<Longrightarrow> lastIndexByte s c = None"
proof -
  assume "c \<notin> set s"
  then have "indexByte (rev s) c = None"
    by (simp add: indexByte_None_iff)
  then show ?thesis
    by (simp add: lastIndexByte_def)
qed

lemma lastIndexByte_last: "c \<notin> set p \<Longrightarrow> lastIndexByte (h @ c # p) c = Some (length h)"
  using indexByte_first [of c "rev p" "rev h"] by (simp add: lastIndexByte_def)

lemma plainPart_set:
  "plainPart s \<Longrightarrow> CHR '':'' \<notin> set s \<and> CHR ''['' \<notin> set s \<and> CHR '']'' \<notin> set s"
  by (auto simp: plainPart_def list_all_iff)

lemma SplitHostPort_no_colon: "CHR '':'' \<notin> set s \<Longrightarrow> SplitHostPort s = Inl MissingPort"
  by (simp add: SplitHostPort_def lastIndexByte_absent)

lemma SplitHostPort_plain:
  assumes "plainPart h" and "plainPart p"
  shows "SplitHostPort (h @ '':'' @ p) = Inr (h, p)"
proof -
  note hs = plainPart_set [OF assms(1)] and ps = plainPart_set [OF assms(2)]
  have i: "lastIndexByte (h @ '':'' @ p) (CHR '':'') = Some (length h)"
    using lastIndexByte_last [of "CHR '':''" p h] ps by simp
  have nb: "take 1 (h @ '':'' @ p) \<noteq> ''[''"
    using hs by (cases h) auto
  have fin: "splitFinish (h @ '':'' @ p) (length h) h 0 0 = Inr (h, p)"
    using hs ps by (simp add: splitFinish_def indexByte_None_iff)
  have nc: "indexByte (take (length h) (h @ '':'' @ p)) (CHR '':'') = None"
    using hs by (simp add: indexByte_None_iff)
  show ?thesis
    unfolding SplitHostPort_def i option.case if_not_P [OF nb] Let_def nc
    using fin by simp
qed

lemma SplitHostPort_example_com: "SplitHostPort ''example.com'' = Inl MissingPort"
  by (rule SplitHostPort_no_colon) simp

section \<open>The QoS resolver\<close>

text \<open>
  Claim C8. For every request and every default, \<open>targetQOS\<close> returns the value of the
  \<open>X-Flashlight-QOS\<close> header when \<open>strconv.Atoi\<close> accepts it, that is, when the header
  is a decimal integer that fits into \<open>int\<close>, whatever that value is; it returns the
  default \<open>MinQOS\<close> when the header is absent or when \<open>Atoi\<close> rejects it. The function is
  total: it has no failing branch.
\<close>

theorem targetQOS_header_or_default:
  "(\<forall>n. atoi (intSize pf) (Header_Get (Header req) httpXFlashlightQOS) = Inr n
        \<longrightarrow> targetQOS pf cl req = n)
   \<and> (\<forall>n. spec_decimal (Header_Get (Header req) httpXFlashlightQOS) = Some n
          \<and> fitsInt (intSize pf) n
        \<longrightarrow> targetQOS pf cl req = n)
   \<and> (Header req ''X-Flashlight-Qos'' = None \<longrightarrow> targetQOS pf cl req = MinQOS cl)
   \<and> ((\<exists>e. atoi (intSize pf) (Header_Get (Header req) httpXFlashlightQOS) = Inl e)
        \<longrightarrow> targetQOS pf cl req = MinQOS cl)
   \<and> (spec_decimal (Header_Get (Header req) httpXFlashlightQOS) = None
        \<longrightarrow> targetQOS pf cl req = MinQOS cl)"
proof -
  let ?v = "Header_Get (Header req) httpXFlashlightQOS"
  have empty: "atoi (intSize pf) [] = Inl ErrSyntax"
    by (simp add: atoi_def)
  have a: "atoi (intSize pf) ?v = Inr n \<Longrightarrow> targetQOS pf cl req = n" for n
    using empty by (cases "?v = []") (simp_all add: targetQOS_def Let_def)
  have b: "atoi (intSize pf) ?v = Inl e \<Longrightarrow> targetQOS pf cl req = MinQOS cl" for e
    by (simp add: targetQOS_def Let_def)
  have c: "Header req ''X-Flashlight-Qos'' = None \<Longrightarrow> targetQOS pf cl req = MinQOS cl"
    by (simp add: targetQOS_def Header_Get_def canonical_qos_key)
  have d: "spec_decimal ?v = Some n \<Longrightarrow> fitsInt (intSize pf) n \<Longrightarrow> targetQOS pf cl req = n"
    for n
    by (rule a) (simp add: atoi_spec)
  have e: "spec_decimal ?v = None \<Longrightarrow> targetQOS pf cl req = MinQOS cl"
    by (rule b [of ErrSyntax]) (simp add: atoi_spec)
  show ?thesis
    using a b c d e by blast
qed

theorem targetQOS_header_or_default_witness:
  "atoi 64 ''7'' = Inr 7
   \<and> targetQOS \<lparr>GOOS = ''linux'', intSize = 64\<rparr> \<lparr>MinQOS = 3, ProxyAll = False\<rparr>
        \<lparr>Method = ''CONNECT'', Host = ''example.com'',
         Header = [''X-Flashlight-Qos'' \<mapsto> [''7'']]\<rparr> = 7
   \<and> atoi 64 ''abc'' = Inl ErrSyntax
   \<and> targetQOS \<lparr>GOOS = ''linux'', intSize = 64\<rparr> \<lparr>MinQOS = 3, ProxyAll = False\<rparr>
        \<lparr>Method = ''CONNECT'', Host = ''example.com'',
         Header = [''X-Flashlight-Qos'' \<mapsto> [''abc'']]\<rparr> = 3
   \<and> targetQOS \<lparr>GOOS = ''linux'', intSize = 64\<rparr> \<lparr>MinQOS = 3, ProxyAll = False\<rparr>
        \<lparr>Method = ''CONNECT'', Host = ''example.com'', Header = Map.empty\<rparr> = 3"
proof -
  let ?pf = "\<lparr>GOOS = ''linux'', intSize = 64\<rparr>"
  let ?cl = "\<lparr>MinQOS = 3, ProxyAll = False\<rparr>"
  let ?r7 = "\<lparr>Method = ''CONNECT'', Host = ''example.com'',
              Header = [''X-Flashlight-Qos'' \<mapsto> [''7'']]\<rparr>"
  let ?ra = "\<lparr>Method = ''CONNECT'', Host = ''example.com'',
              Header = [''X-Flashlight-Qos'' \<mapsto> [''abc'']]\<rparr>"
  let ?rn = "\<lparr>Method = ''CONNECT'', Host = ''example.com'', Header = Map.empty\<rparr>"
  have p7: "atoi 64 ''7'' = Inr 7"
    by (simp add: atoi_def atoiUnsigned_def isDigit_def digitVal_def)
  have pa: "atoi 64 ''abc'' = Inl ErrSyntax"
    by (simp add: atoi_def atoiUnsigned_def isDigit_def digitVal_def)
  have g7: "Header_Get (Header ?r7) httpXFlashlightQOS = ''7''"
    by (simp add: Header_Get_def canonical_qos_key)
  have ga: "Header_Get (Header ?ra) httpXFlashlightQOS = ''abc''"
    by (simp add: Header_Get_def canonical_qos_key)
  have "targetQOS ?pf ?cl ?r7 = 7"
    using targetQOS_header_or_default [of ?pf ?r7 ?cl] p7 g7 by simp
  moreover have "targetQOS ?pf ?cl ?ra = 3"
    using targetQOS_header_or_default [of ?pf ?ra ?cl] pa ga by simp
  moreover have "targetQOS ?pf ?cl ?rn = 3"
    using targetQOS_header_or_default [of ?pf ?rn ?cl] by simp
  ultimately show ?thesis
    using p7 pa by simp
qed

section \<open>Address resolution\<close>

text \<open>
  Claim C9. Address resolution gives the host a port, 443 by default: a host without a
  colon gets \<open>:443\<close> appended, and a host that already is \<open>host:port\<close> (a non-empty port
  after the only colon, no brackets) is returned unchanged. In particular
  \<open>example.com\<close> resolves to \<open>example.com:443\<close> and \<open>example.com:8443\<close> to itself.
\<close>

theorem hostIncludingPort_defaults_port:
  "(CHR '':'' \<notin> set (Host req) \<longrightarrow> hostIncludingPort req 443 = Host req @ '':443'')
   \<and> (\<forall>h p. Host req = h @ '':'' @ p \<and> p \<noteq> [] \<and> plainPart h \<and> plainPart p
          \<longrightarrow> hostIncludingPort req 443 = Host req)
   \<and> (Host req = ''example.com'' \<longrightarrow> hostIncludingPort req 443 = ''example.com:443'')
   \<and> (Host req = ''example.com:8443'' \<longrightarrow> hostIncludingPort req 443 = ''example.com:8443'')"
proof (intro conjI allI impI)
  assume "CHR '':'' \<notin> set (Host req)"
  then show "hostIncludingPort req 443 = Host req @ '':443''"
    by (simp add: hostIncludingPort_def SplitHostPort_no_colon itoa_443)
next
  fix h p
  assume a: "Host req = h @ '':'' @ p \<and> p \<noteq> [] \<and> plainPart h \<and> plainPart p"
  then have "SplitHostPort (Host req) = Inr (h, p)"
    using SplitHostPort_plain [of h p] by simp
  with a show "hostIncludingPort req 443 = Host req"
    by (simp add: hostIncludingPort_def)
next
  assume "Host req = ''example.com''"
  then show "hostIncludingPort req 443 = ''example.com:443''"
    by (simp add: hostIncludingPort_def SplitHostPort_no_colon itoa_443)
next
  assume h: "Host req = ''example.com:8443''"
  have "SplitHostPort (''example.com'' @ '':'' @ ''8443'') = Inr (''example.com'', ''8443'')"
    by (rule SplitHostPort_plain) (simp_all add: plainPart_def)
  with h show "hostIncludingPort req 443 = ''example.com:8443''"
    by (simp add: hostIncludingPort_def)
qed

theorem hostIncludingPort_defaults_port_witness:
  "hostIncludingPort \<lparr>Method = ''CONNECT'', Host = ''example.com'', Header = Map.empty\<rparr> 443
     = ''example.com:443''
   \<and> plainPart ''10.0.0.7'' \<and> plainPart ''8443''
   \<and> hostIncludingPort \<lparr>Method = ''CONNECT'', Host = ''10.0.0.7:8443'', Header = Map.empty\<rparr> 443
     = ''10.0.0.7:8443''
   \<and> hostIncludingPort \<lparr>Method = ''CONNECT'', Host = ''example.com:8443'', Header = Map.empty\<rparr> 443
     = ''example.com:8443''"
proof -
  let ?r1 = "\<lparr>Method = ''CONNECT'', Host = ''example.com'', Header = Map.empty\<rparr>"
  let ?r2 = "\<lparr>Method = ''CONNECT'', Host = ''10.0.0.7:8443'', Header = Map.empty\<rparr>"
  let ?r3 = "\<lparr>Method = ''CONNECT'', Host = ''example.com:8443'', Header = Map.empty\<rparr>"
  have pl: "plainPart ''10.0.0.7'' \<and> plainPart ''8443''"
    by (simp add: plainPart_def)
  have "hostIncludingPort ?r1 443 = ''example.com:443''"
    using hostIncludingPort_defaults_port [of ?r1] by simp
  moreover have "hostIncludingPort ?r2 443 = ''10.0.0.7:8443''"
  proof -
    have "Host ?r2 = ''10.0.0.7'' @ '':'' @ ''8443'' \<and> ''8443'' \<noteq> []
          \<and> plainPart ''10.0.0.7'' \<and> plainPart ''8443''"
      using pl by simp
    then have "hostIncludingPort ?r2 443 = Host ?r2"
      using hostIncludingPort_defaults_port [of ?r2] by blast
    then show ?thesis by simp
  qed
  moreover have "hostIncludingPort ?r3 443 = ''example.com:8443''"
    using hostIncludingPort_defaults_port [of ?r3] by simp
  ultimately show ?thesis
    using pl by simp
qed

text \<open>
  Claim C10. Whenever \<open>net.SplitHostPort\<close> fails on the request's host, or succeeds with
  an empty port, address resolution appends a colon and the default port to the raw host,
  colons in the host notwithstanding: \<open>example.com:\<close> resolves to \<open>example.com::443\<close> and
  the bare IPv6 literal \<open>::1\<close> to \<open>::1:443\<close>.
\<close>

theorem hostIncludingPort_appends_when_split_fails:
  "(((\<exists>e. SplitHostPort (Host req) = Inl e) \<or> (\<exists>h. SplitHostPort (Host req) = Inr (h, [])))
      \<longrightarrow> hostIncludingPort req d = Host req @ '':'' @ itoa d)
   \<and> (Host req = ''example.com:'' \<longrightarrow> hostIncludingPort req 443 = ''example.com::443'')
   \<and> (Host req = ''::1'' \<longrightarrow> hostIncludingPort req 443 = ''::1:443'')"
proof (intro conjI impI)
  assume "(\<exists>e. SplitHostPort (Host req) = Inl e) \<or> (\<exists>h. SplitHostPort (Host req) = Inr (h, []))"
  then show "hostIncludingPort req d = Host req @ '':'' @ itoa d"
    by (auto simp: hostIncludingPort_def)
next
  assume h: "Host req = ''example.com:''"
  have "SplitHostPort (''example.com'' @ '':'' @ []) = Inr (''example.com'', [])"
    by (rule SplitHostPort_plain) (simp_all add: plainPart_def)
  with h show "hostIncludingPort req 443 = ''example.com::443''"
    by (simp add: hostIncludingPort_def itoa_443)
next
  assume h: "Host req = ''::1''"
  have "SplitHostPort ''::1'' = Inl TooManyColons"
    by (simp add: SplitHostPort_def lastIndexByte_def)
  with h show "hostIncludingPort req 443 = ''::1:443''"
    by (simp add: hostIncludingPort_def itoa_443)
qed

theorem hostIncludingPort_appends_when_split_fails_witness:
  "SplitHostPort ''::1'' = Inl TooManyColons
   \<and> SplitHostPort ''example.com:'' = Inr (''example.com'', [])
   \<and> hostIncludingPort \<lparr>Method = ''CONNECT'', Host = ''::1'', Header = Map.empty\<rparr> 443
     = ''::1:443''
   \<and> hostIncludingPort \<lparr>Method = ''CONNECT'', Host = ''example.com:'', Header = Map.empty\<rparr> 443
     = ''example.com::443''"
proof -
  let ?r1 = "\<lparr>Method = ''CONNECT'', Host = ''::1'', Header = Map.empty\<rparr>"
  let ?r2 = "\<lparr>Method = ''CONNECT'', Host = ''example.com:'', Header = Map.empty\<rparr>"
  have s1: "SplitHostPort ''::1'' = Inl TooManyColons"
    by (simp add: SplitHostPort_def lastIndexByte_def)
  have s2: "SplitHostPort ''example.com:'' = Inr (''example.com'', [])"
    by (simp add: SplitHostPort_def lastIndexByte_def splitFinish_def)
  have "hostIncludingPort ?r1 443 = Host ?r1 @ '':'' @ itoa 443"
    using hostIncludingPort_appends_when_split_fails [of ?r1 443] s1 by simp
  moreover have "hostIncludingPort ?r2 443 = Host ?r2 @ '':'' @ itoa 443"
    using hostIncludingPort_appends_when_split_fails [of ?r2 443] s2 by simp
  ultimately show ?thesis
    using s1 s2 by (simp add: itoa_443)
qed



section \<open>Schedules and invariants\<close>

lemma run_append: "run st (xs @ ys) s = run st ys (run st xs s)"
  by (induction xs arbitrary: s) simp_all

lemma run_invariant:
  assumes "P s" and "\<And>s t. P s \<Longrightarrow> P (step st t s)"
  shows "P (run st sched s)"
  using assms(1)
proof (induction sched arbitrary: s)
  case Nil
  then show ?case by simp
next
  case (Cons t ts)
  then show ?case by (simp add: assms(2))
qed

lemmas pc_defs = needsClient_def needsOut_def awaitingRelease_def afterRelease_def
  clientRegistered_def outRegistered_def outDeregistered_def outClosed_def
  clientClosedByHandler_def

lemma control_init: "control (init cs0 ss0)"
  by (simp add: control_def init_def pc_defs)

lemma control_handlerStep: "control s \<Longrightarrow> control (handlerStep st s)"
  by (cases "mpc s"; cases "gpc s";
      simp add: control_def handlerStep_def pc_defs
        split: hijackResult.split option.split sum.split)

lemma control_taskStep: "control s \<Longrightarrow> control (taskStep s)"
  by (cases "mpc s"; cases "gpc s";
      simp add: control_def taskStep_def pc_defs split: option.split)

lemma control_step: "control s \<Longrightarrow> control (step st t s)"
  by (cases t) (simp_all add: step_def control_handlerStep control_taskStep)

lemma control_run: "control (run st sched (init cs0 ss0))"
  by (rule run_invariant [OF control_init control_step])

lemma before_Nil: "before a b []"
  by (simp add: before_def)

lemma before_append_other:
  "b \<notin> set evs \<Longrightarrow> before a b (tr @ evs) = before a b tr"
proof (cases "b \<in> set tr")
  case True
  then have "takeWhile (\<lambda>e. e \<noteq> b) (tr @ evs) = takeWhile (\<lambda>e. e \<noteq> b) tr"
    by (intro takeWhile_append1 [of b]) simp_all
  with True show ?thesis
    by (simp add: before_def)
next
  case False
  assume "b \<notin> set evs"
  with False show ?thesis
    by (simp add: before_def)
qed

lemma before_snoc:
  "before a b (tr @ [e]) = (before a b tr \<and> (e = b \<longrightarrow> b \<in> set tr \<or> a \<in> set tr))"
proof (cases "b \<in> set tr")
  case True
  then have "takeWhile (\<lambda>x. x \<noteq> b) (tr @ [e]) = takeWhile (\<lambda>x. x \<noteq> b) tr"
    by (intro takeWhile_append1 [of b]) simp_all
  with True show ?thesis
    by (simp add: before_def)
next
  case False
  then have "takeWhile (\<lambda>x. x \<noteq> b) (tr @ [e]) = tr @ takeWhile (\<lambda>x. x \<noteq> b) [e]"
    by (intro takeWhile_append2) auto
  with False show ?thesis
    by (auto simp: before_def)
qed

lemma traced_init: "traced st (init cs0 ss0)"
  by (simp add: traced_def init_def before_Nil)

lemma dialEvents_no_close: "EvClose t c \<notin> set (dialEvents st)"
  by (simp add: dialEvents_def)

lemma count_dialEvents_WgDone: "count_list (dialEvents st) EvWgDone = 0"
  by (simp add: dialEvents_def)

lemma traced_handlerStep: "control s \<Longrightarrow> traced st s \<Longrightarrow> traced st (handlerStep st s)"
  by (cases "mpc s"; cases "gpc s";
      simp add: control_def traced_def handlerStep_def pc_defs before_append_other
        before_snoc dialEvents_no_close count_dialEvents_WgDone
        split: hijackResult.split option.split sum.split)

lemma traced_taskStep: "control s \<Longrightarrow> traced st s \<Longrightarrow> traced st (taskStep s)"
  by (cases "mpc s"; cases "gpc s";
      simp add: control_def traced_def taskStep_def pc_defs before_snoc split: option.split)

lemma control_traced_step:
  "control s \<and> traced st s \<Longrightarrow> control (step st t s) \<and> traced st (step st t s)"
  by (cases t) (simp_all add: step_def control_handlerStep control_taskStep
      traced_handlerStep traced_taskStep)

lemma traced_run: "traced st (run st sched (init cs0 ss0))"
proof -
  have "control (run st sched (init cs0 ss0)) \<and> traced st (run st sched (init cs0 ss0))"
    by (rule run_invariant [where P = "\<lambda>s. control s \<and> traced st s"])
      (simp_all add: control_init traced_init control_traced_step)
  then show ?thesis by simp
qed

lemma taskStep_frame:
  "mpc (taskStep s) = mpc s" "clientConn (taskStep s) = clientConn s"
  "connOut (taskStep s) = connOut s" "clientConns (taskStep s) = clientConns s"
  "conns (taskStep s) = conns s" "addr (taskStep s) = addr s"
  "dialErr (taskStep s) = dialErr s" "okErr (taskStep s) = okErr s"
  "sinkOut (taskStep s) = sinkOut s" "clientOut (taskStep s) = clientOut s"
  "logs (taskStep s) = logs s" "wg (taskStep s) = wg s"
  by (cases "gpc s"; simp add: taskStep_def split: option.split)+

lemma clientReg_init: "clientReg st cs0 (init cs0 ss0)"
  by (simp add: clientReg_def init_def)

lemma clientReg_handlerStep:
  "control s \<Longrightarrow> clientReg st cs0 s \<Longrightarrow> clientReg st cs0 (handlerStep st s)"
  by (cases "mpc s";
      simp add: control_def clientReg_def handlerStep_def pc_defs clientMeta_def
        peerOf_def
        split: hijackResult.split option.split sum.split;
      auto)

lemma clientReg_taskStep: "clientReg st cs0 s \<Longrightarrow> clientReg st cs0 (taskStep s)"
  by (simp add: clientReg_def taskStep_frame)

lemma outReg_init: "outReg st ss0 (init cs0 ss0)"
  by (simp add: outReg_def init_def)

lemma outReg_handlerStep:
  "control s \<Longrightarrow> outReg st ss0 s \<Longrightarrow> outReg st ss0 (handlerStep st s)"
  by (cases "mpc s";
      simp add: control_def outReg_def handlerStep_def pc_defs outMeta_def
        peerOf_def
        split: hijackResult.split option.split sum.split;
      auto)

lemma outReg_taskStep: "outReg st ss0 s \<Longrightarrow> outReg st ss0 (taskStep s)"
  by (simp add: outReg_def taskStep_frame)

lemma closedInv_init: "closedInv (init cs0 ss0)"
  by (simp add: closedInv_def init_def)

lemma closedInv_handlerStep:
  "control s \<Longrightarrow> closedInv s \<Longrightarrow> closedInv (handlerStep st s)"
  by (cases "mpc s"; cases "gpc s";
      simp add: control_def closedInv_def handlerStep_def pc_defs
        split: hijackResult.split option.split sum.split;
      blast)

lemma closedInv_taskStep:
  "control s \<Longrightarrow> closedInv s \<Longrightarrow> closedInv (taskStep s)"
  by (cases "mpc s"; cases "gpc s";
      simp add: control_def closedInv_def taskStep_def pc_defs
        split: option.split;
      blast)

lemma filter_dialEvents: "filter isDialEvent (dialEvents st) = dialEvents st"
  by (simp add: dialEvents_def)

lemma dialEvents_ne: "dialEvents st \<noteq> []"
  by (simp add: dialEvents_def)

lemma dialed_init: "dialed st (init cs0 ss0)"
  by (simp add: dialed_def init_def)

lemma dialed_handlerStep: "control s \<Longrightarrow> dialed st s \<Longrightarrow> dialed st (handlerStep st s)"
  by (cases "mpc s"; cases "gpc s";
      simp add: control_def dialed_def handlerStep_def pc_defs filter_dialEvents
        split: hijackResult.split option.split sum.split;
      auto)

lemma dialed_taskStep: "control s \<Longrightarrow> dialed st s \<Longrightarrow> dialed st (taskStep s)"
  by (cases "mpc s"; cases "gpc s";
      simp add: control_def dialed_def taskStep_def pc_defs split: option.split;
      auto)

lemma outputs_init: "outputs st (init cs0 ss0)"
  by (simp add: outputs_def init_def split: hijackResult.split)

lemma outputs_handlerStep:
  "control s \<Longrightarrow> dialed st s \<Longrightarrow> outputs st s \<Longrightarrow> outputs st (handlerStep st s)"
  by (cases "mpc s"; cases "gpc s";
      simp add: control_def dialed_def outputs_def handlerStep_def pc_defs
        split: hijackResult.split option.split sum.split;
      auto)

lemma outputs_taskStep: "control s \<Longrightarrow> outputs st s \<Longrightarrow> outputs st (taskStep s)"
  by (cases "mpc s"; cases "gpc s";
      simp add: control_def outputs_def taskStep_def pc_defs split: option.split hijackResult.split;
      auto)

lemma invariants_init: "invariants st cs0 ss0 (init cs0 ss0)"
  by (simp add: invariants_def control_init traced_init clientReg_init outReg_init
      closedInv_init dialed_init outputs_init)

lemma invariants_step: "invariants st cs0 ss0 s \<Longrightarrow> invariants st cs0 ss0 (step st t s)"
  by (cases t)
    (simp_all add: invariants_def step_def control_handlerStep control_taskStep
      traced_handlerStep traced_taskStep clientReg_handlerStep clientReg_taskStep
      outReg_handlerStep outReg_taskStep closedInv_handlerStep closedInv_taskStep
      dialed_handlerStep dialed_taskStep outputs_handlerStep outputs_taskStep)

lemma invariants_run: "invariants st cs0 ss0 (run st sched (init cs0 ss0))"
  by (rule run_invariant [OF invariants_init invariants_step])

lemma invariants_attempt: "invariants st cs0 ss0 (attempt st cs0 ss0 sched)"
  unfolding attempt_def by (rule invariants_run)

lemma attempt_append: "run st rest (attempt st cs0 ss0 sched) = attempt st cs0 ss0 (sched @ rest)"
  by (simp add: attempt_def run_append)

text \<open>
  Progress. The handler never blocks for good: each of its steps moves it on, so any
  schedule that gives it twelve steps sees it return or panic. Once the signal has been
  released nothing blocks the copy task: three of its steps end it.
\<close>

lemma stage_le: "stage p \<le> 12"
  by (cases p) simp_all

lemma stage_final: "(stage p = 12) = (p = Returned \<or> p = Panicked)"
  by (cases p) simp_all

lemma stage_handlerStep:
  "control s \<Longrightarrow> min 12 (Suc (stage (mpc s))) \<le> stage (mpc (handlerStep st s))"
  by (cases "mpc s";
      simp add: control_def handlerStep_def pc_defs
        split: hijackResult.split option.split sum.split)

lemma stage_step:
  "control s \<Longrightarrow>
   min 12 (stage (mpc s) + (if t = Handler then 1 else 0)) \<le> stage (mpc (step st t s))"
  using stage_handlerStep [of s st] stage_le [of "mpc s"]
  by (cases t) (simp_all add: step_def taskStep_frame)

lemma stage_run:
  "control s \<Longrightarrow>
   min 12 (stage (mpc s) + count_list sched Handler) \<le> stage (mpc (run st sched s))"
proof (induction sched arbitrary: s)
  case Nil
  then show ?case by simp
next
  case (Cons t ts)
  have c: "control (step st t s)"
    using Cons.prems by (rule control_step)
  have 1: "min 12 (stage (mpc s) + (if t = Handler then 1 else 0)) \<le> stage (mpc (step st t s))"
    using Cons.prems by (rule stage_step)
  have 2: "min 12 (stage (mpc (step st t s)) + count_list ts Handler)
           \<le> stage (mpc (run st ts (step st t s)))"
    using c by (rule Cons.IH)
  show ?case
    using 1 2 by (cases "t = Handler") (simp_all add: min_def split: if_splits)
qed

lemma handler_finishes:
  assumes "12 \<le> count_list sched Handler"
  shows "mpc (attempt st cs0 ss0 sched) = Returned \<or> mpc (attempt st cs0 ss0 sched) = Panicked"
proof -
  have "min 12 (stage (mpc (init cs0 ss0)) + count_list sched Handler)
        \<le> stage (mpc (run st sched (init cs0 ss0)))"
    by (rule stage_run [OF control_init])
  with assms have "12 \<le> stage (mpc (run st sched (init cs0 ss0)))"
    by (simp add: init_def)
  with stage_le [of "mpc (run st sched (init cs0 ss0))"]
  have "stage (mpc (run st sched (init cs0 ss0))) = 12"
    by simp
  then show ?thesis
    by (simp add: stage_final attempt_def)
qed

lemma taskStage_le: "taskStage p \<le> 3"
  by (cases p) simp_all

lemma released_handlerStep:
  "control s \<Longrightarrow> gpc s \<noteq> NotSpawned \<Longrightarrow> afterRelease (mpc s) \<Longrightarrow>
   gpc (handlerStep st s) = gpc s \<and> afterRelease (mpc (handlerStep st s))"
  by (cases "mpc s";
      simp add: control_def handlerStep_def pc_defs
        split: hijackResult.split option.split sum.split)

lemma released_taskStep:
  "control s \<Longrightarrow> gpc s \<noteq> NotSpawned \<Longrightarrow> afterRelease (mpc s) \<Longrightarrow>
   gpc (taskStep s) \<noteq> NotSpawned
   \<and> min 3 (Suc (taskStage (gpc s))) \<le> taskStage (gpc (taskStep s))"
  by (cases "mpc s"; cases "gpc s";
      simp add: control_def taskStep_def pc_defs split: option.split)

lemma taskStage_run:
  "control s \<Longrightarrow> gpc s \<noteq> NotSpawned \<Longrightarrow> afterRelease (mpc s) \<Longrightarrow>
   min 3 (taskStage (gpc s) + count_list sched CopyTask) \<le> taskStage (gpc (run st sched s))"
proof (induction sched arbitrary: s)
  case Nil
  then show ?case by simp
next
  case (Cons t ts)
  have c: "control (step st t s)"
    using Cons.prems(1) by (rule control_step)
  show ?case
  proof (cases t)
    case Handler
    have h: "gpc (handlerStep st s) = gpc s \<and> afterRelease (mpc (handlerStep st s))"
      using Cons.prems by (rule released_handlerStep)
    have "min 3 (taskStage (gpc (handlerStep st s)) + count_list ts CopyTask)
          \<le> taskStage (gpc (run st ts (handlerStep st s)))"
      using c h Cons.prems(2) Handler by (intro Cons.IH) (simp_all add: step_def)
    with h Handler show ?thesis
      by (simp add: step_def)
  next
    case CopyTask
    have g: "gpc (taskStep s) \<noteq> NotSpawned
             \<and> min 3 (Suc (taskStage (gpc s))) \<le> taskStage (gpc (taskStep s))"
      using Cons.prems by (rule released_taskStep)
    have "min 3 (taskStage (gpc (taskStep s)) + count_list ts CopyTask)
          \<le> taskStage (gpc (run st ts (taskStep s)))"
      using c g Cons.prems(3) CopyTask
      by (intro Cons.IH) (simp_all add: step_def taskStep_frame)
    with g CopyTask show ?thesis
      by (simp add: step_def min_def split: if_splits)
  qed
qed

lemma task_finishes:
  assumes "control s" and "gpc s \<noteq> NotSpawned" and "afterRelease (mpc s)"
    and "3 \<le> count_list sched CopyTask"
  shows "gpc (run st sched s) = TaskDone"
proof -
  have "min 3 (taskStage (gpc s) + count_list sched CopyTask) \<le> taskStage (gpc (run st sched s))"
    using assms(1-3) by (rule taskStage_run)
  with assms(4) have "3 \<le> taskStage (gpc (run st sched s))"
    by simp
  then show ?thesis
    by (cases "gpc (run st sched s)") simp_all
qed

section \<open>The example attempt\<close>

lemma example_resolved: "resolved (exampleSetting d w ''example.com'') = ''example.com:443''"
  by (simp add: resolved_def exampleSetting_def hostIncludingPort_def
      SplitHostPort_example_com itoa_443)

lemma example_targetQOS:
  "targetQOS (platformOf (exampleSetting d w h)) (clientOf (exampleSetting d w h))
     (requestOf (exampleSetting d w h)) = 0"
  by (simp add: exampleSetting_def targetQOS_def Header_Get_def)

lemma example_selectedDial:
  "selectedDial (exampleSetting d exampleWorld ''example.com'') = Inr 4"
  by (simp add: selectedDial_def baseDial_def example_resolved example_targetQOS)
    (simp add: exampleSetting_def exampleWorld_def)

lemma example_dialEvents:
  "dialEvents (exampleSetting d w ''example.com'')
     = (if d then [EvBaseDial ''tcp'' ''example.com:443'']
        else [EvDetourDialer, EvWrappedDial ''tcp'' ''example.com:443''])"
proof -
  have "forceDirect (exampleSetting d w ''example.com'') = d"
    by (simp add: forceDirect_def exampleSetting_def)
  then show ?thesis
    by (simp add: dialEvents_def example_resolved)
qed

lemmas example_defs = init_def step_def handlerStep_def taskStep_def example_resolved
  example_selectedDial example_dialEvents respondOK_def respondBadGateway_def
  httpConnectMethod_def

lemma example_world_simps:
  "Method (requestOf (exampleSetting d w h)) = ''CONNECT''"
  "Host (requestOf (exampleSetting d w h)) = h"
  "worldOf (exampleSetting d w h) = w"
  "hijack exampleWorld = Hijacked 3"
  "remoteAddr exampleWorld 3 = Some ''10.0.0.1:5000''"
  "remoteAddr exampleWorld 4 = Some ''93.184.216.34:443''"
  "headWrite exampleWorld = None" "bodyWrite exampleWorld = None"
  "headAccepted exampleWorld = 0" "bodyAccepted exampleWorld = 0"
  "nowClient exampleWorld = 10" "nowOut exampleWorld = 11"
  by (simp_all add: exampleSetting_def exampleWorld_def)


lemma example_early_close:
  "attempt (exampleSetting False exampleWorld ''example.com'') Map.empty Map.empty
     earlyCloseSchedule
   = \<lparr>mpc = CopyOutToClient, gpc = TaskDone, wg = 0,
      clientConns = [3 \<mapsto> \<lparr>hostAddr = ''example.com'', peerAddr = ''10.0.0.1:5000'',
                             establishedAt = 10\<rparr>],
      conns = [4 \<mapsto> \<lparr>hostAddr = ''example.com:443'', peerAddr = ''93.184.216.34:443'',
                       establishedAt = 11\<rparr>],
      closed = {3}, clientConn = Some 3, connOut = Some 4, addr = ''example.com:443'',
      dialErr = None, okErr = None, sinkOut = [], clientOut = [ResponseHead 200],
      logs = [],
      trace = [EvDetourDialer, EvWrappedDial ''tcp'' ''example.com:443'', EvRespondOK None,
               EvWgDone, EvClose CopyTask 3]\<rparr>"
  by (simp add: attempt_def earlyCloseSchedule_def example_defs example_world_simps)

section \<open>The response-sent signal\<close>





section \<open>The registries\<close>

lemma example_complete:
  "attempt (exampleSetting False exampleWorld ''example.com'') Map.empty Map.empty
     completeSchedule
   = \<lparr>mpc = Returned, gpc = TaskDone, wg = 0, clientConns = Map.empty, conns = Map.empty,
      closed = {3, 4}, clientConn = Some 3, connOut = Some 4, addr = ''example.com:443'',
      dialErr = None, okErr = None, sinkOut = [], clientOut = [ResponseHead 200],
      logs = [],
      trace = [EvDetourDialer, EvWrappedDial ''tcp'' ''example.com:443'', EvRespondOK None,
               EvWgDone, EvClose CopyTask 3, EvClose Handler 4, EvClose Handler 3]\<rparr>"
proof -
  have "attempt (exampleSetting False exampleWorld ''example.com'') Map.empty Map.empty
          completeSchedule
        = run (exampleSetting False exampleWorld ''example.com'')
            [Handler, Handler, Handler, Handler, Handler]
            (attempt (exampleSetting False exampleWorld ''example.com'') Map.empty Map.empty
               earlyCloseSchedule)"
    by (simp add: completeSchedule_def attempt_append)
  then show ?thesis
    unfolding example_early_close
    by (simp add: step_def handlerStep_def insert_commute)
qed

text \<open>
  Claim C1, as stated, fails. In the example the client stops sending at once; while the
  handler is still piping from the outbound socket, the copy task has closed the client
  socket (its \<open>Close\<close> has returned) and the socket is still in the client-side registry.
\<close>

theorem closed_connection_still_registered:
  "mpc (attempt (exampleSetting False exampleWorld ''example.com'') Map.empty Map.empty
          earlyCloseSchedule) = CopyOutToClient
   \<and> clientConn (attempt (exampleSetting False exampleWorld ''example.com'') Map.empty Map.empty
          earlyCloseSchedule) = Some 3
   \<and> EvClose CopyTask 3
        \<in> set (trace (attempt (exampleSetting False exampleWorld ''example.com'') Map.empty
                         Map.empty earlyCloseSchedule))
   \<and> 3 \<in> closed (attempt (exampleSetting False exampleWorld ''example.com'') Map.empty
                     Map.empty earlyCloseSchedule)
   \<and> clientConns (attempt (exampleSetting False exampleWorld ''example.com'') Map.empty
                     Map.empty earlyCloseSchedule) 3 \<noteq> None"
  by (simp add: example_early_close)

text \<open>
  Claim C1, amended. Whether a socket is in its registry follows the position of the
  handler, not whether the socket is open: the client socket is in the client-side
  registry from its registration, the step after the hijack, until the deregistration
  that follows \<open>Close\<close> in the deferred cleanup, and the outbound socket likewise from the
  step after the dial; entries of other connections are never touched. A connection is
  closed exactly when the handler's cleanup has closed it or, for the client socket, when
  the copy task has. So during piping both sockets are in their registries (the client
  socket possibly closed already), and once the handler has returned both are closed and
  absent. Any schedule that gives the handler twelve steps ends the attempt.
\<close>

theorem registry_follows_handler_position:
  "(clientConn (attempt st cs0 ss0 sched) = None \<longrightarrow> clientConns (attempt st cs0 ss0 sched) = cs0)
   \<and> (\<forall>c. clientConn (attempt st cs0 ss0 sched) = Some c \<longrightarrow>
          clientConns (attempt st cs0 ss0 sched)
            = (if clientRegistered (mpc (attempt st cs0 ss0 sched)) then cs0(c \<mapsto> clientMeta st c)
               else if mpc (attempt st cs0 ss0 sched) = Returned then cs0(c := None)
               else cs0))
   \<and> (connOut (attempt st cs0 ss0 sched) = None \<longrightarrow> conns (attempt st cs0 ss0 sched) = ss0)
   \<and> (\<forall>c. connOut (attempt st cs0 ss0 sched) = Some c \<longrightarrow>
          conns (attempt st cs0 ss0 sched)
            = (if outRegistered (mpc (attempt st cs0 ss0 sched)) then ss0(c \<mapsto> outMeta st c)
               else if outDeregistered (mpc (attempt st cs0 ss0 sched)) then ss0(c := None)
               else ss0))
   \<and> (\<forall>c. (c \<in> closed (attempt st cs0 ss0 sched))
            = (clientConn (attempt st cs0 ss0 sched) = Some c
                 \<and> (clientClosedByHandler (mpc (attempt st cs0 ss0 sched))
                    \<or> gpc (attempt st cs0 ss0 sched) = TaskDone)
               \<or> connOut (attempt st cs0 ss0 sched) = Some c
                 \<and> outClosed (mpc (attempt st cs0 ss0 sched))))
   \<and> (mpc (attempt st cs0 ss0 sched) = CopyOutToClient \<longrightarrow>
         (\<exists>c d. clientConn (attempt st cs0 ss0 sched) = Some c
                \<and> connOut (attempt st cs0 ss0 sched) = Some d
                \<and> clientConns (attempt st cs0 ss0 sched) c \<noteq> None
                \<and> conns (attempt st cs0 ss0 sched) d \<noteq> None))
   \<and> (mpc (attempt st cs0 ss0 sched) = Returned \<longrightarrow>
         (\<forall>c. clientConn (attempt st cs0 ss0 sched) = Some c \<longrightarrow>
               clientConns (attempt st cs0 ss0 sched) c = None
               \<and> c \<in> closed (attempt st cs0 ss0 sched))
         \<and> (\<forall>c. connOut (attempt st cs0 ss0 sched) = Some c \<longrightarrow>
               conns (attempt st cs0 ss0 sched) c = None
               \<and> c \<in> closed (attempt st cs0 ss0 sched)))
   \<and> (12 \<le> count_list sched Handler \<longrightarrow>
         mpc (attempt st cs0 ss0 sched) = Returned \<or> mpc (attempt st cs0 ss0 sched) = Panicked)"
proof -
  let ?s = "attempt st cs0 ss0 sched"
  have inv: "control ?s" "clientReg st cs0 ?s" "outReg st ss0 ?s" "closedInv ?s"
    using invariants_attempt [of st cs0 ss0 sched] by (simp_all add: invariants_def)
  have 1: "clientConn ?s = None \<Longrightarrow> clientConns ?s = cs0"
    using inv(2) by (simp add: clientReg_def)
  have 2: "clientConn ?s = Some c \<Longrightarrow>
           clientConns ?s
             = (if clientRegistered (mpc ?s) then cs0(c \<mapsto> clientMeta st c)
                else if mpc ?s = Returned then cs0(c := None) else cs0)" for c
    using inv(2) by (simp add: clientReg_def)
  have 3: "connOut ?s = None \<Longrightarrow> conns ?s = ss0"
    using inv(3) by (simp add: outReg_def)
  have 4: "connOut ?s = Some c \<Longrightarrow>
           conns ?s
             = (if outRegistered (mpc ?s) then ss0(c \<mapsto> outMeta st c)
                else if outDeregistered (mpc ?s) then ss0(c := None) else ss0)" for c
    using inv(3) by (simp add: outReg_def)
  have 5: "(c \<in> closed ?s)
           = (clientConn ?s = Some c \<and> (clientClosedByHandler (mpc ?s) \<or> gpc ?s = TaskDone)
              \<or> connOut ?s = Some c \<and> outClosed (mpc ?s))" for c
    using inv(4) by (simp add: closedInv_def)
  have 6: "\<exists>c d. clientConn ?s = Some c \<and> connOut ?s = Some d
                  \<and> clientConns ?s c \<noteq> None \<and> conns ?s d \<noteq> None"
    if p: "mpc ?s = CopyOutToClient"
  proof -
    obtain c d where cd: "clientConn ?s = Some c" "connOut ?s = Some d"
      using inv(1) p by (auto simp: control_def pc_defs)
    have "clientConns ?s c \<noteq> None"
      using 2 [OF cd(1)] p by (simp add: pc_defs)
    moreover have "conns ?s d \<noteq> None"
      using 4 [OF cd(2)] p by (simp add: pc_defs)
    ultimately show ?thesis
      using cd by blast
  qed
  have 7: "clientConns ?s c = None \<and> c \<in> closed ?s"
    if "mpc ?s = Returned" "clientConn ?s = Some c" for c
    using 2 [OF that(2)] 5 [of c] that by (simp add: pc_defs)
  have 8: "conns ?s c = None \<and> c \<in> closed ?s"
    if "mpc ?s = Returned" "connOut ?s = Some c" for c
    using 4 [OF that(2)] 5 [of c] that by (simp add: pc_defs)
  have 9: "12 \<le> count_list sched Handler \<Longrightarrow> mpc ?s = Returned \<or> mpc ?s = Panicked"
    by (rule handler_finishes)
  show ?thesis
    using 1 2 3 4 5 6 7 8 9 by blast
qed


theorem registry_follows_handler_position_witness:
  "mpc (attempt (exampleSetting False exampleWorld ''example.com'') Map.empty Map.empty
          earlyCloseSchedule) = CopyOutToClient
   \<and> clientConns (attempt (exampleSetting False exampleWorld ''example.com'') Map.empty
                     Map.empty earlyCloseSchedule) 3 \<noteq> None
   \<and> conns (attempt (exampleSetting False exampleWorld ''example.com'') Map.empty Map.empty
               earlyCloseSchedule) 4 \<noteq> None
   \<and> 12 \<le> count_list completeSchedule Handler
   \<and> mpc (attempt (exampleSetting False exampleWorld ''example.com'') Map.empty Map.empty
            completeSchedule) = Returned
   \<and> clientConn (attempt (exampleSetting False exampleWorld ''example.com'') Map.empty
                    Map.empty completeSchedule) = Some 3
   \<and> connOut (attempt (exampleSetting False exampleWorld ''example.com'') Map.empty Map.empty
                 completeSchedule) = Some 4
   \<and> clientConns (attempt (exampleSetting False exampleWorld ''example.com'') Map.empty
                     Map.empty completeSchedule) 3 = None
   \<and> conns (attempt (exampleSetting False exampleWorld ''example.com'') Map.empty Map.empty
               completeSchedule) 4 = None
   \<and> 3 \<in> closed (attempt (exampleSetting False exampleWorld ''example.com'') Map.empty
                     Map.empty completeSchedule)
   \<and> 4 \<in> closed (attempt (exampleSetting False exampleWorld ''example.com'') Map.empty
                     Map.empty completeSchedule)"
proof -
  let ?st = "exampleSetting False exampleWorld ''example.com''"
  have n: "12 \<le> count_list completeSchedule Handler"
    by (simp add: completeSchedule_def earlyCloseSchedule_def)
  have p: "mpc (attempt ?st Map.empty Map.empty earlyCloseSchedule) = CopyOutToClient"
    "clientConn (attempt ?st Map.empty Map.empty earlyCloseSchedule) = Some 3"
    "connOut (attempt ?st Map.empty Map.empty earlyCloseSchedule) = Some 4"
    by (simp_all add: example_early_close)
  have r: "mpc (attempt ?st Map.empty Map.empty completeSchedule) = Returned"
    "clientConn (attempt ?st Map.empty Map.empty completeSchedule) = Some 3"
    "connOut (attempt ?st Map.empty Map.empty completeSchedule) = Some 4"
    by (simp_all add: example_complete)
  note piping = registry_follows_handler_position [of ?st Map.empty Map.empty earlyCloseSchedule]
  note finished = registry_follows_handler_position [of ?st Map.empty Map.empty completeSchedule]
  have "\<exists>c d. clientConn (attempt ?st Map.empty Map.empty earlyCloseSchedule) = Some c
               \<and> connOut (attempt ?st Map.empty Map.empty earlyCloseSchedule) = Some d
               \<and> clientConns (attempt ?st Map.empty Map.empty earlyCloseSchedule) c \<noteq> None
               \<and> conns (attempt ?st Map.empty Map.empty earlyCloseSchedule) d \<noteq> None"
    using piping p(1) by blast
  then have "clientConns (attempt ?st Map.empty Map.empty earlyCloseSchedule) 3 \<noteq> None
        \<and> conns (attempt ?st Map.empty Map.empty earlyCloseSchedule) 4 \<noteq> None"
    using p(2,3) by auto
  moreover have "clientConns (attempt ?st Map.empty Map.empty completeSchedule) 3 = None
        \<and> 3 \<in> closed (attempt ?st Map.empty Map.empty completeSchedule)"
    using finished r(1,2) by blast
  moreover have "conns (attempt ?st Map.empty Map.empty completeSchedule) 4 = None
        \<and> 4 \<in> closed (attempt ?st Map.empty Map.empty completeSchedule)"
    using finished r(1,3) by blast
  ultimately show ?thesis
    using n p r by simp
qed

section \<open>The dial strategy\<close>

lemma count_list_filter: "P x \<Longrightarrow> count_list (filter P xs) x = count_list xs x"
  by (induction xs) auto

lemma set_filter_dial: "isDialEvent x \<Longrightarrow> (x \<in> set xs) = (x \<in> set (filter isDialEvent xs))"
  by simp

text \<open>
  Claim C7. When \<open>forceDirect\<close> holds (the platform is Android or \<open>ProxyAll\<close> is set),
  \<open>detour.Dialer\<close> is never called and the one dial call of the attempt is the base dial
  function \<open>d\<close> itself; when it does not hold, \<open>d\<close> is never called by the handler, and
  \<open>detour.Dialer\<close> is called with \<open>d\<close> exactly once, by the time the handler is past the
  dial, and then the function it returned is called. The outcome of the selected dial is
  what the handler goes on with: its connection, or its error as the dial error, in which
  case the handler answers Bad Gateway and never starts the pipe.
\<close>

theorem dial_strategy_selection:
  "(forceDirect st \<longrightarrow>
      EvDetourDialer \<notin> set (trace (attempt st cs0 ss0 sched))
      \<and> (\<forall>n a. EvWrappedDial n a \<notin> set (trace (attempt st cs0 ss0 sched))))
   \<and> (\<not> forceDirect st \<longrightarrow>
         count_list (trace (attempt st cs0 ss0 sched)) EvDetourDialer \<le> 1
         \<and> (\<forall>n a. EvBaseDial n a \<notin> set (trace (attempt st cs0 ss0 sched))))
   \<and> (needsOut (mpc (attempt st cs0 ss0 sched))
         \<or> mpc (attempt st cs0 ss0 sched) = RespondingBadGateway \<longrightarrow>
       dialErr (attempt st cs0 ss0 sched) \<noteq> None \<or> connOut (attempt st cs0 ss0 sched) \<noteq> None)
   \<and> (dialErr (attempt st cs0 ss0 sched) \<noteq> None \<or> connOut (attempt st cs0 ss0 sched) \<noteq> None \<longrightarrow>
         filter isDialEvent (trace (attempt st cs0 ss0 sched))
           = (if forceDirect st then [EvBaseDial ''tcp'' (hostIncludingPort (requestOf st) 443)]
              else [EvDetourDialer, EvWrappedDial ''tcp'' (hostIncludingPort (requestOf st) 443)])
         \<and> count_list (trace (attempt st cs0 ss0 sched)) EvDetourDialer
             = (if forceDirect st then 0 else 1)
         \<and> (\<forall>e. (if forceDirect st
                   then baseDial st ''tcp'' (hostIncludingPort (requestOf st) 443)
                   else detour_Dialer (worldOf st) (baseDial st) ''tcp''
                          (hostIncludingPort (requestOf st) 443)) = Inl e \<longrightarrow>
                dialErr (attempt st cs0 ss0 sched) = Some e
                \<and> connOut (attempt st cs0 ss0 sched) = None
                \<and> gpc (attempt st cs0 ss0 sched) = NotSpawned
                \<and> (mpc (attempt st cs0 ss0 sched) = RespondingBadGateway
                   \<or> mpc (attempt st cs0 ss0 sched) = CloseClient
                   \<or> mpc (attempt st cs0 ss0 sched) = DeregisterClient
                   \<or> mpc (attempt st cs0 ss0 sched) = Returned))
         \<and> (\<forall>c. (if forceDirect st
                   then baseDial st ''tcp'' (hostIncludingPort (requestOf st) 443)
                   else detour_Dialer (worldOf st) (baseDial st) ''tcp''
                          (hostIncludingPort (requestOf st) 443)) = Inr c \<longrightarrow>
                connOut (attempt st cs0 ss0 sched) = Some c
                \<and> dialErr (attempt st cs0 ss0 sched) = None))"
proof -
  let ?s = "attempt st cs0 ss0 sched"
  let ?d = "if forceDirect st
            then baseDial st ''tcp'' (hostIncludingPort (requestOf st) 443)
            else detour_Dialer (worldOf st) (baseDial st) ''tcp''
                   (hostIncludingPort (requestOf st) 443)"
  have inv: "control ?s" "dialed st ?s"
    using invariants_attempt [of st cs0 ss0 sched] by (simp_all add: invariants_def)
  have sel: "selectedDial st = ?d"
    by (simp add: selectedDial_def resolved_def)
  define fl where "fl = filter isDialEvent (trace ?s)"
  have f: "fl = [] \<or> fl = dialEvents st"
    using inv(2) unfolding dialed_def fl_def by blast
  have m: "x \<in> set (trace ?s) \<Longrightarrow> isDialEvent x \<Longrightarrow> x \<in> set fl" for x
    by (simp add: fl_def)
  have k: "count_list (trace ?s) EvDetourDialer = count_list fl EvDetourDialer"
    by (simp add: fl_def count_list_filter)
  have 1: "EvDetourDialer \<notin> set (trace ?s) \<and> (\<forall>n a. EvWrappedDial n a \<notin> set (trace ?s))"
    if "forceDirect st"
  proof -
    have "EvDetourDialer \<notin> set fl \<and> (\<forall>n a. EvWrappedDial n a \<notin> set fl)"
      using f that by (auto simp: dialEvents_def)
    then show ?thesis
      using m [of EvDetourDialer] m [of "EvWrappedDial n a" for n a] by auto
  qed
  have 2: "count_list (trace ?s) EvDetourDialer \<le> 1 \<and> (\<forall>n a. EvBaseDial n a \<notin> set (trace ?s))"
    if "\<not> forceDirect st"
  proof -
    have "count_list fl EvDetourDialer \<le> 1 \<and> (\<forall>n a. EvBaseDial n a \<notin> set fl)"
      using f that by (auto simp: dialEvents_def)
    then show ?thesis
      using m [of "EvBaseDial n a" for n a] by (auto simp: k)
  qed
  have 3: "needsOut (mpc ?s) \<or> mpc ?s = RespondingBadGateway \<Longrightarrow>
           dialErr ?s \<noteq> None \<or> connOut ?s \<noteq> None"
    using inv(1) unfolding control_def by blast
  have 4: "filter isDialEvent (trace ?s)
             = (if forceDirect st then [EvBaseDial ''tcp'' (hostIncludingPort (requestOf st) 443)]
                else [EvDetourDialer, EvWrappedDial ''tcp'' (hostIncludingPort (requestOf st) 443)])
           \<and> count_list (trace ?s) EvDetourDialer = (if forceDirect st then 0 else 1)"
    if "dialErr ?s \<noteq> None \<or> connOut ?s \<noteq> None"
  proof -
    have "fl = dialEvents st"
      using inv(2) that unfolding dialed_def fl_def by blast
    then show ?thesis
      unfolding k by (simp add: fl_def [symmetric] dialEvents_def resolved_def)
  qed
  have 5: "dialErr ?s = Some e \<and> connOut ?s = None \<and> gpc ?s = NotSpawned
           \<and> (mpc ?s = RespondingBadGateway \<or> mpc ?s = CloseClient
              \<or> mpc ?s = DeregisterClient \<or> mpc ?s = Returned)"
    if d: "dialErr ?s \<noteq> None \<or> connOut ?s \<noteq> None" and e: "?d = Inl e" for e
  proof -
    have no: "connOut ?s = None"
    proof (cases "connOut ?s")
      case None
      then show ?thesis .
    next
      case (Some c)
      then have "selectedDial st = Inr c"
        using inv(2) unfolding dialed_def by blast
      with e sel show ?thesis by simp
    qed
    with d obtain e' where e': "dialErr ?s = Some e'"
      by auto
    then have "selectedDial st = Inl e'"
      using inv(2) unfolding dialed_def by blast
    with e sel have "e' = e" by simp
    with e' no inv(2) show ?thesis
      unfolding dialed_def by simp
  qed
  have 6: "connOut ?s = Some c \<and> dialErr ?s = None"
    if d: "dialErr ?s \<noteq> None \<or> connOut ?s \<noteq> None" and c: "?d = Inr c" for c
  proof -
    have no: "dialErr ?s = None"
    proof (cases "dialErr ?s")
      case None
      then show ?thesis .
    next
      case (Some e)
      then have "selectedDial st = Inl e"
        using inv(2) unfolding dialed_def by blast
      with c sel show ?thesis by simp
    qed
    with d obtain c' where c': "connOut ?s = Some c'"
      by auto
    then have "selectedDial st = Inr c'"
      using inv(2) unfolding dialed_def by blast
    with c sel have "c' = c" by simp
    with c' no show ?thesis by simp
  qed
  show ?thesis
    using 1 2 3 4 5 6 by blast
qed



lemma example_selectedDial_gen:
  "DialQOS w = DialQOS exampleWorld \<Longrightarrow> detour_Dialer w = detour_Dialer exampleWorld \<Longrightarrow>
   selectedDial (exampleSetting d w ''example.com'') = Inr 4"
  by (simp add: selectedDial_def baseDial_def example_resolved example_targetQOS)
    (simp add: exampleSetting_def exampleWorld_def)

lemma unreachable_resolved:
  "resolved (exampleSetting d w ''unreachable.test'') = ''unreachable.test:443''"
  by (simp add: resolved_def exampleSetting_def hostIncludingPort_def SplitHostPort_no_colon
      itoa_443)

lemma unreachable_selectedDial:
  "DialQOS w = DialQOS exampleWorld \<Longrightarrow> detour_Dialer w = detour_Dialer exampleWorld \<Longrightarrow>
   selectedDial (exampleSetting d w ''unreachable.test'') = Inl ''no route to host''"
  by (simp add: selectedDial_def baseDial_def unreachable_resolved example_targetQOS)
    (simp add: exampleSetting_def exampleWorld_def)

lemma unreachable_dialEvents:
  "dialEvents (exampleSetting d w ''unreachable.test'')
     = (if d then [EvBaseDial ''tcp'' ''unreachable.test:443'']
        else [EvDetourDialer, EvWrappedDial ''tcp'' ''unreachable.test:443''])"
proof -
  have "forceDirect (exampleSetting d w ''unreachable.test'') = d"
    by (simp add: forceDirect_def exampleSetting_def)
  then show ?thesis
    by (simp add: dialEvents_def unreachable_resolved)
qed

lemmas unreachable_defs = init_def step_def handlerStep_def taskStep_def unreachable_resolved
  unreachable_selectedDial unreachable_dialEvents respondOK_def respondBadGateway_def
  httpConnectMethod_def

lemma example_direct_dialed:
  "attempt (exampleSetting True exampleWorld ''example.com'') Map.empty Map.empty
     [Handler, Handler, Handler]
   = \<lparr>mpc = RegisterOut, gpc = NotSpawned, wg = 0,
      clientConns = [3 \<mapsto> \<lparr>hostAddr = ''example.com'', peerAddr = ''10.0.0.1:5000'',
                             establishedAt = 10\<rparr>],
      conns = Map.empty, closed = {}, clientConn = Some 3, connOut = Some 4,
      addr = ''example.com:443'', dialErr = None, okErr = None, sinkOut = [],
      clientOut = [], logs = [], trace = [EvBaseDial ''tcp'' ''example.com:443'']\<rparr>"
  by (simp add: attempt_def example_defs example_world_simps)

lemma unreachable_direct_dialed:
  "attempt (exampleSetting True exampleWorld ''unreachable.test'') Map.empty Map.empty
     [Handler, Handler, Handler]
   = \<lparr>mpc = RespondingBadGateway, gpc = NotSpawned, wg = 0,
      clientConns = [3 \<mapsto> \<lparr>hostAddr = ''unreachable.test'', peerAddr = ''10.0.0.1:5000'',
                             establishedAt = 10\<rparr>],
      conns = Map.empty, closed = {}, clientConn = Some 3, connOut = None,
      addr = ''unreachable.test:443'', dialErr = Some ''no route to host'', okErr = None,
      sinkOut = [], clientOut = [], logs = [],
      trace = [EvBaseDial ''tcp'' ''unreachable.test:443'']\<rparr>"
  by (simp add: attempt_def unreachable_defs example_world_simps)

theorem dial_strategy_selection_witness:
  "forceDirect (exampleSetting True exampleWorld ''example.com'')
   \<and> connOut (attempt (exampleSetting True exampleWorld ''example.com'') Map.empty Map.empty
                 [Handler, Handler, Handler]) \<noteq> None
   \<and> EvDetourDialer
        \<notin> set (trace (attempt (exampleSetting True exampleWorld ''example.com'') Map.empty
                         Map.empty [Handler, Handler, Handler]))
   \<and> filter isDialEvent
        (trace (attempt (exampleSetting True exampleWorld ''example.com'') Map.empty Map.empty
                  [Handler, Handler, Handler]))
      = [EvBaseDial ''tcp'' ''example.com:443'']
   \<and> \<not> forceDirect (exampleSetting False exampleWorld ''example.com'')
   \<and> connOut (attempt (exampleSetting False exampleWorld ''example.com'') Map.empty Map.empty
                 earlyCloseSchedule) \<noteq> None
   \<and> count_list
        (trace (attempt (exampleSetting False exampleWorld ''example.com'') Map.empty Map.empty
                  earlyCloseSchedule)) EvDetourDialer = 1
   \<and> baseDial (exampleSetting True exampleWorld ''unreachable.test'') ''tcp''
        (hostIncludingPort (requestOf (exampleSetting True exampleWorld ''unreachable.test'')) 443)
      = Inl ''no route to host''
   \<and> dialErr (attempt (exampleSetting True exampleWorld ''unreachable.test'') Map.empty
                 Map.empty [Handler, Handler, Handler]) = Some ''no route to host''
   \<and> mpc (attempt (exampleSetting True exampleWorld ''unreachable.test'') Map.empty Map.empty
             [Handler, Handler, Handler]) = RespondingBadGateway"
proof -
  let ?d = "exampleSetting True exampleWorld ''example.com''"
  let ?f = "exampleSetting False exampleWorld ''example.com''"
  let ?u = "exampleSetting True exampleWorld ''unreachable.test''"
  let ?hs = "[Handler, Handler, Handler]"
  have fd: "forceDirect ?d" "\<not> forceDirect ?f" "forceDirect ?u"
    by (simp_all add: forceDirect_def exampleSetting_def)
  have dialed: "connOut (attempt ?d Map.empty Map.empty ?hs) \<noteq> None"
    "connOut (attempt ?f Map.empty Map.empty earlyCloseSchedule) \<noteq> None"
    "mpc (attempt ?u Map.empty Map.empty ?hs) = RespondingBadGateway"
    by (simp_all add: example_direct_dialed example_early_close unreachable_direct_dialed)
  have res: "hostIncludingPort (requestOf ?d) 443 = ''example.com:443''"
    using example_resolved [of True exampleWorld] by (simp add: resolved_def)
  have sel: "baseDial ?u ''tcp'' (hostIncludingPort (requestOf ?u) 443) = Inl ''no route to host''"
    using unreachable_selectedDial [of exampleWorld True] fd(3)
    by (simp add: selectedDial_def resolved_def)
  have "EvDetourDialer \<notin> set (trace (attempt ?d Map.empty Map.empty ?hs))
        \<and> filter isDialEvent (trace (attempt ?d Map.empty Map.empty ?hs))
            = [EvBaseDial ''tcp'' ''example.com:443'']"
    using dial_strategy_selection [of ?d Map.empty Map.empty ?hs] fd(1) dialed(1) res
    by simp
  moreover have "count_list (trace (attempt ?f Map.empty Map.empty earlyCloseSchedule))
                   EvDetourDialer = 1"
    using dial_strategy_selection [of ?f Map.empty Map.empty earlyCloseSchedule] fd(2) dialed(2)
    by simp
  moreover have "dialErr (attempt ?u Map.empty Map.empty ?hs) = Some ''no route to host''"
    using dial_strategy_selection [of ?u Map.empty Map.empty ?hs] fd(3) dialed(3) sel
    by auto
  ultimately show ?thesis
    using fd dialed sel by simp
qed


section \<open>Failure of the dial\<close>









section \<open>Failure of the success response\<close>

text \<open>
  Claim C6. When the write of the success response fails, \<open>pipeData\<close> never copies from the
  outbound socket to the client: the handler logs the error and returns from \<open>pipeData\<close>.
  The signal has been released all the same, so nothing blocks the copy task: whatever
  else happens, three steps of it (the end of its copy, \<open>wg.Wait()\<close>, \<open>Close\<close>) suffice
  for it to close the client socket. The handler's deferred cleanups close both sockets
  and remove them from the registries; any schedule that gives the handler twelve steps
  sees it return.
\<close>

theorem response_write_failure_skips_copy:
  "headWrite (worldOf st) = Some e \<longrightarrow>
     mpc (attempt st cs0 ss0 sched) \<noteq> CopyOutToClient
     \<and> (gpc (attempt st cs0 ss0 sched) \<noteq> NotSpawned
          \<and> afterRelease (mpc (attempt st cs0 ss0 sched)) \<longrightarrow>
           Error (''Unable to respond OK: '' @ e) \<in> set (logs (attempt st cs0 ss0 sched))
           \<and> EvWgDone \<in> set (trace (attempt st cs0 ss0 sched)))
     \<and> (\<forall>rest c. gpc (attempt st cs0 ss0 sched) \<noteq> NotSpawned
            \<and> afterRelease (mpc (attempt st cs0 ss0 sched))
            \<and> clientConn (attempt st cs0 ss0 sched) = Some c
            \<and> 3 \<le> count_list rest CopyTask \<longrightarrow>
           gpc (run st rest (attempt st cs0 ss0 sched)) = TaskDone
           \<and> EvClose CopyTask c \<in> set (trace (run st rest (attempt st cs0 ss0 sched)))
           \<and> c \<in> closed (run st rest (attempt st cs0 ss0 sched)))
     \<and> (gpc (attempt st cs0 ss0 sched) \<noteq> NotSpawned
          \<and> mpc (attempt st cs0 ss0 sched) = Returned \<longrightarrow>
           (\<exists>c d. clientConn (attempt st cs0 ss0 sched) = Some c
                  \<and> connOut (attempt st cs0 ss0 sched) = Some d
                  \<and> EvClose Handler c \<in> set (trace (attempt st cs0 ss0 sched))
                  \<and> EvClose Handler d \<in> set (trace (attempt st cs0 ss0 sched))
                  \<and> c \<in> closed (attempt st cs0 ss0 sched)
                  \<and> d \<in> closed (attempt st cs0 ss0 sched)
                  \<and> clientConns (attempt st cs0 ss0 sched) c = None
                  \<and> conns (attempt st cs0 ss0 sched) d = None))
     \<and> (gpc (attempt st cs0 ss0 sched) \<noteq> NotSpawned \<and> 12 \<le> count_list sched Handler \<longrightarrow>
           mpc (attempt st cs0 ss0 sched) = Returned)"
proof (intro impI)
  assume a: "headWrite (worldOf st) = Some e"
  let ?s = "attempt st cs0 ss0 sched"
  have inv: "control ?s" "traced st ?s" "clientReg st cs0 ?s" "outReg st ss0 ?s" "closedInv ?s"
    "dialed st ?s" "outputs st ?s"
    using invariants_attempt [of st cs0 ss0 sched] by (simp_all add: invariants_def)
  have err: "snd (respondOK (worldOf st)) = Some e"
    using a by (simp add: respondOK_def)
  have 1: "mpc ?s \<noteq> CopyOutToClient"
  proof
    assume "mpc ?s = CopyOutToClient"
    then have "snd (respondOK (worldOf st)) = None"
      using inv(7) unfolding outputs_def by blast
    with err show False by simp
  qed
  have 2: "Error (''Unable to respond OK: '' @ e) \<in> set (logs ?s) \<and> EvWgDone \<in> set (trace ?s)"
    if g: "gpc ?s \<noteq> NotSpawned \<and> afterRelease (mpc ?s)"
  proof -
    have "Error (''Unable to respond OK: '' @ e) \<in> set (logs ?s)"
      using inv(7) g err unfolding outputs_def by blast
    moreover have "EvWgDone \<in> set (trace ?s)"
      using inv(2) g unfolding traced_def by blast
    ultimately show ?thesis by simp
  qed
  have 3: "gpc (run st rest ?s) = TaskDone \<and> EvClose CopyTask c \<in> set (trace (run st rest ?s))
           \<and> c \<in> closed (run st rest ?s)"
    if g: "gpc ?s \<noteq> NotSpawned \<and> afterRelease (mpc ?s) \<and> clientConn ?s = Some c
           \<and> 3 \<le> count_list rest CopyTask" for rest c
  proof -
    let ?t = "run st rest ?s"
    have t: "?t = attempt st cs0 ss0 (sched @ rest)"
      by (rule attempt_append)
    have inv': "control ?t" "traced st ?t" "clientReg st cs0 ?t" "closedInv ?t"
      unfolding t using invariants_attempt [of st cs0 ss0 "sched @ rest"]
      by (simp_all add: invariants_def)
    have d: "gpc ?t = TaskDone"
      using inv(1) g by (intro task_finishes) simp_all
    then have "clientConn ?t \<noteq> None"
      using inv'(1) unfolding control_def by simp
    then obtain c' where c': "clientConn ?t = Some c'" by auto
    have "hijack (worldOf st) = Hijacked c'"
      using inv'(3) c' unfolding clientReg_def by blast
    moreover have "hijack (worldOf st) = Hijacked c"
      using inv(3) g unfolding clientReg_def by blast
    ultimately have cc: "clientConn ?t = Some c"
      using c' by simp
    have "EvClose CopyTask c \<in> set (trace ?t)"
      using inv'(2) cc d unfolding traced_def by blast
    moreover have "c \<in> closed ?t"
      using inv'(4) cc d unfolding closedInv_def by blast
    ultimately show ?thesis
      using d by simp
  qed
  have 4: "\<exists>c d. clientConn ?s = Some c \<and> connOut ?s = Some d
                  \<and> EvClose Handler c \<in> set (trace ?s) \<and> EvClose Handler d \<in> set (trace ?s)
                  \<and> c \<in> closed ?s \<and> d \<in> closed ?s
                  \<and> clientConns ?s c = None \<and> conns ?s d = None"
    if g: "gpc ?s \<noteq> NotSpawned \<and> mpc ?s = Returned"
  proof -
    have "clientConn ?s \<noteq> None \<and> connOut ?s \<noteq> None"
      using inv(1) g unfolding control_def by blast
    then obtain c d where cd: "clientConn ?s = Some c" "connOut ?s = Some d"
      by auto
    have "EvClose Handler c \<in> set (trace ?s) \<and> EvClose Handler d \<in> set (trace ?s)"
      using inv(2) cd g unfolding traced_def by (simp add: pc_defs)
    moreover have "c \<in> closed ?s \<and> d \<in> closed ?s"
      using inv(5) cd g unfolding closedInv_def by (simp add: pc_defs)
    moreover have "clientConns ?s c = None"
      using inv(3) cd g unfolding clientReg_def by (simp add: pc_defs)
    moreover have "conns ?s d = None"
      using inv(4) cd g unfolding outReg_def by (simp add: pc_defs)
    ultimately show ?thesis
      using cd by blast
  qed
  have 5: "mpc ?s = Returned"
    if g: "gpc ?s \<noteq> NotSpawned \<and> 12 \<le> count_list sched Handler"
  proof -
    have "mpc ?s = Returned \<or> mpc ?s = Panicked"
      using g by (intro handler_finishes) simp
    moreover have "awaitingRelease (mpc ?s) \<or> afterRelease (mpc ?s)"
      using inv(1) g unfolding control_def by blast
    then have "mpc ?s \<noteq> Panicked"
      by (auto simp: pc_defs)
    ultimately show ?thesis by simp
  qed
  show "mpc ?s \<noteq> CopyOutToClient
     \<and> (gpc ?s \<noteq> NotSpawned \<and> afterRelease (mpc ?s) \<longrightarrow>
           Error (''Unable to respond OK: '' @ e) \<in> set (logs ?s)
           \<and> EvWgDone \<in> set (trace ?s))
     \<and> (\<forall>rest c. gpc ?s \<noteq> NotSpawned \<and> afterRelease (mpc ?s) \<and> clientConn ?s = Some c
            \<and> 3 \<le> count_list rest CopyTask \<longrightarrow>
           gpc (run st rest ?s) = TaskDone
           \<and> EvClose CopyTask c \<in> set (trace (run st rest ?s))
           \<and> c \<in> closed (run st rest ?s))
     \<and> (gpc ?s \<noteq> NotSpawned \<and> mpc ?s = Returned \<longrightarrow>
           (\<exists>c d. clientConn ?s = Some c \<and> connOut ?s = Some d
                  \<and> EvClose Handler c \<in> set (trace ?s) \<and> EvClose Handler d \<in> set (trace ?s)
                  \<and> c \<in> closed ?s \<and> d \<in> closed ?s
                  \<and> clientConns ?s c = None \<and> conns ?s d = None))
     \<and> (gpc ?s \<noteq> NotSpawned \<and> 12 \<le> count_list sched Handler \<longrightarrow> mpc ?s = Returned)"
    by (intro conjI) (use 1 2 3 4 5 in blast)+
qed


lemma write_fails_released:
  "attempt (exampleSetting False (exampleWorld\<lparr>headWrite := Some ''broken pipe''\<rparr>)
              ''example.com'') Map.empty Map.empty upToRelease
   = \<lparr>mpc = CloseOut, gpc = CopyClientToOut, wg = 0,
      clientConns = [3 \<mapsto> \<lparr>hostAddr = ''example.com'', peerAddr = ''10.0.0.1:5000'',
                             establishedAt = 10\<rparr>],
      conns = [4 \<mapsto> \<lparr>hostAddr = ''example.com:443'', peerAddr = ''93.184.216.34:443'',
                       establishedAt = 11\<rparr>],
      closed = {}, clientConn = Some 3, connOut = Some 4, addr = ''example.com:443'',
      dialErr = None, okErr = Some ''broken pipe'', sinkOut = [],
      clientOut = [HeadPart 200 []],
      logs = [Error (''Unable to respond OK: '' @ ''broken pipe'')],
      trace = [EvDetourDialer, EvWrappedDial ''tcp'' ''example.com:443'',
               EvRespondOK (Some ''broken pipe''), EvWgDone]\<rparr>"
  by (simp add: attempt_def upToRelease_def example_defs example_selectedDial_gen
      example_world_simps)

lemma write_fails_spawned:
  "gpc (attempt (exampleSetting False (exampleWorld\<lparr>headWrite := Some ''broken pipe''\<rparr>)
                   ''example.com'') Map.empty Map.empty handlerSteps) = CopyClientToOut"
  by (simp add: attempt_def handlerSteps_def example_defs example_selectedDial_gen
      example_world_simps)

theorem response_write_failure_skips_copy_witness:
  "headWrite (worldOf (exampleSetting False (exampleWorld\<lparr>headWrite := Some ''broken pipe''\<rparr>)
                         ''example.com'')) = Some ''broken pipe''
   \<and> gpc (attempt (exampleSetting False (exampleWorld\<lparr>headWrite := Some ''broken pipe''\<rparr>)
                      ''example.com'') Map.empty Map.empty upToRelease) \<noteq> NotSpawned
   \<and> afterRelease
        (mpc (attempt (exampleSetting False (exampleWorld\<lparr>headWrite := Some ''broken pipe''\<rparr>)
                         ''example.com'') Map.empty Map.empty upToRelease))
   \<and> clientConn (attempt (exampleSetting False (exampleWorld\<lparr>headWrite := Some ''broken pipe''\<rparr>)
                            ''example.com'') Map.empty Map.empty upToRelease) = Some 3
   \<and> 3 \<le> count_list [CopyTask, CopyTask, CopyTask] CopyTask
   \<and> Error ''Unable to respond OK: broken pipe''
        \<in> set (logs (attempt (exampleSetting False
                                 (exampleWorld\<lparr>headWrite := Some ''broken pipe''\<rparr>)
                                 ''example.com'') Map.empty Map.empty upToRelease))
   \<and> gpc (run (exampleSetting False (exampleWorld\<lparr>headWrite := Some ''broken pipe''\<rparr>)
                  ''example.com'') [CopyTask, CopyTask, CopyTask]
             (attempt (exampleSetting False (exampleWorld\<lparr>headWrite := Some ''broken pipe''\<rparr>)
                         ''example.com'') Map.empty Map.empty upToRelease)) = TaskDone
   \<and> 3 \<in> closed
           (run (exampleSetting False (exampleWorld\<lparr>headWrite := Some ''broken pipe''\<rparr>)
                   ''example.com'') [CopyTask, CopyTask, CopyTask]
              (attempt (exampleSetting False (exampleWorld\<lparr>headWrite := Some ''broken pipe''\<rparr>)
                          ''example.com'') Map.empty Map.empty upToRelease))
   \<and> gpc (attempt (exampleSetting False (exampleWorld\<lparr>headWrite := Some ''broken pipe''\<rparr>)
                      ''example.com'') Map.empty Map.empty handlerSteps) \<noteq> NotSpawned
   \<and> 12 \<le> count_list handlerSteps Handler
   \<and> mpc (attempt (exampleSetting False (exampleWorld\<lparr>headWrite := Some ''broken pipe''\<rparr>)
                      ''example.com'') Map.empty Map.empty handlerSteps) = Returned"
proof -
  let ?st = "exampleSetting False (exampleWorld\<lparr>headWrite := Some ''broken pipe''\<rparr>)
               ''example.com''"
  let ?a = "attempt ?st Map.empty Map.empty upToRelease"
  let ?b = "attempt ?st Map.empty Map.empty handlerSteps"
  have h: "headWrite (worldOf ?st) = Some ''broken pipe''"
    by (simp add: example_world_simps)
  have g: "gpc ?a \<noteq> NotSpawned \<and> afterRelease (mpc ?a) \<and> clientConn ?a = Some 3
           \<and> 3 \<le> count_list [CopyTask, CopyTask, CopyTask] CopyTask"
    by (simp add: write_fails_released afterRelease_def)
  have n: "gpc ?b \<noteq> NotSpawned \<and> 12 \<le> count_list handlerSteps Handler"
    by (simp add: write_fails_spawned) (simp add: handlerSteps_def)
  note ta = response_write_failure_skips_copy
    [of ?st "''broken pipe''" Map.empty Map.empty upToRelease]
  note tb = response_write_failure_skips_copy
    [of ?st "''broken pipe''" Map.empty Map.empty handlerSteps]
  have "Error (''Unable to respond OK: '' @ ''broken pipe'') \<in> set (logs ?a)"
    using ta h g by blast
  then have l: "Error ''Unable to respond OK: broken pipe'' \<in> set (logs ?a)"
    by simp
  have t: "gpc (run ?st [CopyTask, CopyTask, CopyTask] ?a) = TaskDone
           \<and> 3 \<in> closed (run ?st [CopyTask, CopyTask, CopyTask] ?a)"
    using ta h g by blast
  have r: "mpc ?b = Returned"
    using tb h n by blast
  show ?thesis
    using h g n l t r by simp
qed

section \<open>Panics in the handler\<close>

text \<open>
  Claim C4 on the client side. The hijack succeeds and the remote address of the client
  socket cannot be read: \<open>clientConn.RemoteAddr().String()\<close> on line 94 panics outside any
  \<open>recover\<close>. The attempt is aborted before the client socket is registered and before its
  cleanup is deferred: the socket stays open and unregistered for good. On the outbound
  side the same failure is caught on lines 121-129: the handler registers the outbound
  socket with an empty peer address and goes on.
\<close>

theorem client_remote_addr_panic_aborts_attempt:
  "mpc (attempt (exampleSetting False (exampleWorld\<lparr>remoteAddr := (\<lambda>c. None)\<rparr>) ''example.com'')
          Map.empty Map.empty [Handler, Handler]) = Panicked
   \<and> clientConn (attempt (exampleSetting False (exampleWorld\<lparr>remoteAddr := (\<lambda>c. None)\<rparr>)
                            ''example.com'') Map.empty Map.empty handlerSteps) = Some 3
   \<and> mpc (attempt (exampleSetting False (exampleWorld\<lparr>remoteAddr := (\<lambda>c. None)\<rparr>)
                      ''example.com'') Map.empty Map.empty handlerSteps) = Panicked
   \<and> clientConns (attempt (exampleSetting False (exampleWorld\<lparr>remoteAddr := (\<lambda>c. None)\<rparr>)
                             ''example.com'') Map.empty Map.empty handlerSteps) = Map.empty
   \<and> closed (attempt (exampleSetting False (exampleWorld\<lparr>remoteAddr := (\<lambda>c. None)\<rparr>)
                        ''example.com'') Map.empty Map.empty handlerSteps) = {}
   \<and> trace (attempt (exampleSetting False (exampleWorld\<lparr>remoteAddr := (\<lambda>c. None)\<rparr>)
                        ''example.com'') Map.empty Map.empty handlerSteps) = []
   \<and> mpc (attempt (exampleSetting False
                      (exampleWorld\<lparr>remoteAddr := (\<lambda>c. if c = 3 then Some ''10.0.0.1:5000''
                                                         else None)\<rparr>)
                      ''example.com'') Map.empty Map.empty [Handler, Handler, Handler, Handler])
       = PipeSpawn
   \<and> conns (attempt (exampleSetting False
                        (exampleWorld\<lparr>remoteAddr := (\<lambda>c. if c = 3 then Some ''10.0.0.1:5000''
                                                           else None)\<rparr>)
                        ''example.com'') Map.empty Map.empty [Handler, Handler, Handler, Handler])
       = [4 \<mapsto> \<lparr>hostAddr = ''example.com:443'', peerAddr = [], establishedAt = 11\<rparr>]"
  by (simp add: attempt_def handlerSteps_def example_defs example_selectedDial_gen
      example_world_simps)

text \<open>
  Claim C5 for a response writer without the hijack capability. The type assertion
  \<open>resp.(http.Hijacker)\<close> on line 89 is unchecked, so it panics: the attempt ends in a
  panic and nothing, no Bad Gateway response either, has been written to the response
  writer. When the writer has the capability and \<open>Hijack\<close> returns an error, the handler
  does write the 502 head and the message to it and returns. Neither path touches a
  registry.
\<close>

theorem missing_hijack_capability_panics:
  "mpc (attempt (exampleSetting False (exampleWorld\<lparr>hijack := NotHijacker\<rparr>) ''example.com'')
          Map.empty Map.empty [Handler]) = Panicked
   \<and> mpc (attempt (exampleSetting False (exampleWorld\<lparr>hijack := NotHijacker\<rparr>) ''example.com'')
          Map.empty Map.empty handlerSteps) = Panicked
   \<and> sinkOut (attempt (exampleSetting False (exampleWorld\<lparr>hijack := NotHijacker\<rparr>)
                         ''example.com'') Map.empty Map.empty handlerSteps) = []
   \<and> clientConns (attempt (exampleSetting False (exampleWorld\<lparr>hijack := NotHijacker\<rparr>)
                             ''example.com'') Map.empty Map.empty handlerSteps) = Map.empty
   \<and> conns (attempt (exampleSetting False (exampleWorld\<lparr>hijack := NotHijacker\<rparr>)
                       ''example.com'') Map.empty Map.empty handlerSteps) = Map.empty
   \<and> mpc (attempt (exampleSetting False
                      (exampleWorld\<lparr>hijack := HijackError ''connection already hijacked''\<rparr>)
                      ''example.com'') Map.empty Map.empty handlerSteps) = Returned
   \<and> sinkOut (attempt (exampleSetting False
                          (exampleWorld\<lparr>hijack := HijackError ''connection already hijacked''\<rparr>)
                          ''example.com'') Map.empty Map.empty handlerSteps)
       = [ResponseHead 502, Bytes ''Unable to hijack connection: connection already hijacked'']
   \<and> clientConns (attempt (exampleSetting False
                          (exampleWorld\<lparr>hijack := HijackError ''connection already hijacked''\<rparr>)
                          ''example.com'') Map.empty Map.empty handlerSteps) = Map.empty
   \<and> conns (attempt (exampleSetting False
                          (exampleWorld\<lparr>hijack := HijackError ''connection already hijacked''\<rparr>)
                          ''example.com'') Map.empty Map.empty handlerSteps) = Map.empty"
  by (simp add: attempt_def handlerSteps_def example_defs example_selectedDial_gen
      example_world_simps)

end
